theory Spec2Isabelle
  imports Complex_Main
begin

section \<open>Parsed JSON payloads and Python's view of them\<close>

text \<open>
  The value that \<open>resp.json()\<close> hands to the program. A \<open>JDict\<close> is the parsed
  Python dict, read through \<open>map_of\<close>; Python's \<open>None\<close> is \<open>JNull\<close>. Numbers are
  exact: a Python float is a \<open>real\<close>, so NaN, the infinities, rounding and the
  OverflowError of \<open>float\<close> on an integer beyond the float range are outside the model.
\<close>

datatype json =
    JNull
  | JBool bool
  | JInt int
  | JFloat real
  | JStr string
  | JList "json list"
  | JDict "(string \<times> json) list"

text \<open>
  The exceptions the program can let through. \<open>Unmodelled\<close> marks the two places
  where numpy and \<open>float\<close> do something this development does not follow:
  \<open>np.mean\<close> over list-valued entries and \<open>float(max(...))\<close> over entries that
  are not numbers.
\<close>

datatype error = AttributeError | TypeError | KeyError | ValueError | Unmodelled

text \<open>Python truthiness, as \<open>if data\<close> and \<open>a or b\<close> test it.\<close>

fun truthy :: "json \<Rightarrow> bool" where
  "truthy JNull = False"
| "truthy (JBool b) = b"
| "truthy (JInt i) = (i \<noteq> 0)"
| "truthy (JFloat r) = (r \<noteq> 0)"
| "truthy (JStr s) = (s \<noteq> [])"
| "truthy (JList xs) = (xs \<noteq> [])"
| "truthy (JDict d) = (d \<noteq> [])"

definition py_or :: "json \<Rightarrow> json \<Rightarrow> json" where
  "py_or a b = (if truthy a then a else b)"

text \<open>\<open>d.get(k)\<close> and \<open>d.get(k, dflt)\<close> on a dict.\<close>

definition dict_get_default :: "(string \<times> json) list \<Rightarrow> string \<Rightarrow> json \<Rightarrow> json" where
  "dict_get_default d k dflt = (case map_of d k of None \<Rightarrow> dflt | Some v \<Rightarrow> v)"

definition dict_get :: "(string \<times> json) list \<Rightarrow> string \<Rightarrow> json" where
  "dict_get d k = dict_get_default d k JNull"

text \<open>
  \<open>isinstance(v, (int, float))\<close> followed by \<open>float(v)\<close>: \<open>bool\<close> is a subclass of
  \<open>int\<close> in Python, so \<open>True\<close> counts as the number 1.
\<close>

fun float_of :: "json \<Rightarrow> real option" where
  "float_of (JInt i) = Some (of_int i)"
| "float_of (JFloat r) = Some r"
| "float_of (JBool b) = Some (if b then 1 else 0)"
| "float_of _ = None"

text \<open>\<open>k in s\<close> on strings is the substring test.\<close>

fun substring :: "string \<Rightarrow> string \<Rightarrow> bool" where
  "substring k [] = (k = [])"
| "substring k (c # cs) = (take (length k) (c # cs) = k \<or> substring k cs)"

text \<open>\<open>k in data\<close> for a string \<open>k\<close>: key membership on a dict, element membership on a
  list, substring on a string, TypeError on anything else.\<close>

fun py_contains :: "string \<Rightarrow> json \<Rightarrow> error + bool" where
  "py_contains k (JDict d) = Inr (map_of d k \<noteq> None)"
| "py_contains k (JList xs) = Inr (List.member xs (JStr k))"
| "py_contains k (JStr s) = Inr (substring k s)"
| "py_contains k _ = Inl TypeError"

text \<open>\<open>data[k]\<close> for a string \<open>k\<close>.\<close>

fun py_getitem :: "json \<Rightarrow> string \<Rightarrow> error + json" where
  "py_getitem (JDict d) k = (case map_of d k of None \<Rightarrow> Inl KeyError | Some v \<Rightarrow> Inr v)"
| "py_getitem _ k = Inl TypeError"

text \<open>\<open>v.get(k, dflt)\<close> on an arbitrary value: only a dict has the attribute.\<close>

fun py_get :: "json \<Rightarrow> string \<Rightarrow> json \<Rightarrow> error + json" where
  "py_get (JDict d) k dflt = Inr (dict_get_default d k dflt)"
| "py_get _ k dflt = Inl AttributeError"

definition err_bind :: "error + 'a \<Rightarrow> ('a \<Rightarrow> error + 'b) \<Rightarrow> error + 'b" where
  "err_bind m f = (case m of Inl e \<Rightarrow> Inl e | Inr x \<Rightarrow> f x)"

section \<open>The outside world\<close>

text \<open>
  One outbound read either fails inside the HTTP library (\<open>requests.RequestException\<close>:
  network failure, timeout, and in current releases of the library an undecodable
  body) or yields a status and a parsed body. The answer may change from call to
  call, so the network is indexed by the number of reads made before; the clock by
  the number of readings taken before.
\<close>

datatype http_result = RequestException | Response nat json

record world =
  net :: "nat \<Rightarrow> int \<Rightarrow> string \<Rightarrow> http_result"
  clock :: "nat \<Rightarrow> real"

section \<open>Batch path: \<open>data_pipeline.py\<close>\<close>

record team_rating =
  total :: real
  auto :: real
  teleop :: real
  endgame :: real

text \<open>\<open>statbotics_get\<close>: the body on status 200, \<open>None\<close> otherwise.\<close>

fun statbotics_get :: "http_result \<Rightarrow> json" where
  "statbotics_get (Response status body) = (if status = 200 then body else JNull)"
| "statbotics_get RequestException = JNull"

text \<open>The local function \<open>safe_mean\<close> of \<open>get_team_epa\<close>.\<close>

fun safe_mean :: "json \<Rightarrow> real" where
  "safe_mean (JDict d) = (case float_of (dict_get d ''mean'') of Some x \<Rightarrow> x | None \<Rightarrow> 0)"
| "safe_mean v = (case float_of v of Some x \<Rightarrow> x | None \<Rightarrow> 0)"

text \<open>The branch \<open>if isinstance(epa, dict) ... elif isinstance(epa, (int, float)) ... else\<close>.\<close>

fun rating_of_epa :: "json \<Rightarrow> team_rating option" where
  "rating_of_epa (JDict epa) =
     (case dict_get epa ''breakdown'' of
        JDict breakdown \<Rightarrow>
          Some \<lparr> total = safe_mean (dict_get breakdown ''total_points''),
                 auto = safe_mean (dict_get breakdown ''auto_points''),
                 teleop = safe_mean (dict_get breakdown ''teleop_points''),
                 endgame = safe_mean (dict_get breakdown ''endgame_points'') \<rparr>
      | _ \<Rightarrow>
          Some \<lparr> total = safe_mean
                   (py_or (dict_get epa ''total_points'')
                     (py_or (dict_get epa ''total'')
                       (py_or (dict_get epa ''mean'') (dict_get epa ''epa'')))),
                 auto = safe_mean (py_or (dict_get epa ''auto_points'') (dict_get epa ''auto'')),
                 teleop = safe_mean (py_or (dict_get epa ''teleop_points'') (dict_get epa ''teleop'')),
                 endgame = safe_mean (py_or (dict_get epa ''endgame_points'') (dict_get epa ''endgame'')) \<rparr>)"
| "rating_of_epa v =
     (case float_of v of
        Some x \<Rightarrow> Some \<lparr> total = x, auto = 0, teleop = 0, endgame = 0 \<rparr>
      | None \<Rightarrow> None)"

text \<open>
  What \<open>get_team_epa\<close> computes from the fetched \<open>data\<close> (lines 125 to 158):
  \<open>if data and "epa" in data\<close>, then \<open>data["epa"]\<close>, then the branch above;
  \<open>None\<close> when the test fails.
\<close>

definition batch_extract :: "json \<Rightarrow> error + team_rating option" where
  "batch_extract data =
     (if \<not> truthy data then Inr None
      else err_bind (py_contains ''epa'' data) (\<lambda>has.
        if has then err_bind (py_getitem data ''epa'') (\<lambda>epa. Inr (rating_of_epa epa))
        else Inr None))"

text \<open>
  The cache key is \<open>f"{team_num}-{event_key}"\<close>; the decimal rendering of an integer
  holds no hyphen after its first character, so the string determines the pair and
  the pair is the key here.
\<close>

type_synonym cache_key = "int \<times> string"

record batch_state =
  epa_cache :: "cache_key \<rightharpoonup> team_rating option"
  outbound :: "cache_key list"

definition get_team_epa ::
  "world \<Rightarrow> int \<Rightarrow> string \<Rightarrow> batch_state \<Rightarrow> (error + team_rating option) \<times> batch_state" where
  "get_team_epa w team_num event_key st =
     (case epa_cache st (team_num, event_key) of
        Some cached \<Rightarrow> (Inr cached, st)
      | None \<Rightarrow>
          (let data = statbotics_get (net w (length (outbound st)) team_num event_key);
               st1 = st \<lparr> outbound := outbound st @ [(team_num, event_key)] \<rparr>
           in case batch_extract data of
                Inl e \<Rightarrow> (Inl e, st1)
              | Inr result \<Rightarrow>
                  (Inr result,
                   st1 \<lparr> epa_cache := (epa_cache st1)((team_num, event_key) \<mapsto> result) \<rparr>)))"

section \<open>Serving path: \<open>predict_server.py\<close>\<close>

text \<open>The serving client stores the \<open>mean\<close> entries as they come, uncoerced.\<close>

record cached_rating =
  c_total :: json
  c_auto :: json
  c_teleop :: json
  c_endgame :: json

definition EPA_CACHE_TTL :: real where
  "EPA_CACHE_TTL = 600"

text \<open>\<open>breakdown.get(name, {}).get("mean", 0)\<close>.\<close>

definition category_mean :: "json \<Rightarrow> string \<Rightarrow> error + json" where
  "category_mean breakdown name =
     err_bind (py_get breakdown name (JDict [])) (\<lambda>cat. py_get cat ''mean'' (JInt 0))"

text \<open>The body of the \<open>if resp.status_code == 200\<close> branch, up to \<open>result\<close>.\<close>

definition serve_extract :: "json \<Rightarrow> error + cached_rating" where
  "serve_extract data =
     err_bind (py_get data ''epa'' (JDict [])) (\<lambda>epa.
     err_bind (py_get epa ''breakdown'' (JDict [])) (\<lambda>breakdown.
     err_bind (category_mean breakdown ''total_points'') (\<lambda>t.
     err_bind (category_mean breakdown ''auto_points'') (\<lambda>a.
     err_bind (category_mean breakdown ''teleop_points'') (\<lambda>tl.
     err_bind (category_mean breakdown ''endgame_points'') (\<lambda>eg.
       Inr \<lparr> c_total = t, c_auto = a, c_teleop = tl, c_endgame = eg \<rparr>))))))"

record serve_state =
  cache :: "cache_key \<rightharpoonup> (cached_rating option \<times> real)"
  fetched :: "cache_key list"
  ticks :: nat

text \<open>
  The part of \<open>get_team_epa_cached\<close> after the cache test: the outbound read, the
  extraction, and the write of the entry. An exception other than
  \<open>RequestException\<close> leaves the function before any write.
\<close>

definition fetch_and_store ::
  "world \<Rightarrow> int \<Rightarrow> string \<Rightarrow> real \<Rightarrow> serve_state \<Rightarrow> (error + cached_rating option) \<times> serve_state" where
  "fetch_and_store w team_num event_key now st =
     (let resp = net w (length (fetched st)) team_num event_key;
          st1 = st \<lparr> fetched := fetched st @ [(team_num, event_key)] \<rparr>;
          absent = (Inr None, st1 \<lparr> cache := (cache st1)((team_num, event_key) \<mapsto> (None, now)) \<rparr>)
      in case resp of
           RequestException \<Rightarrow> absent
         | Response status data \<Rightarrow>
             if status = 200 then
               (case serve_extract data of
                  Inl e \<Rightarrow> (Inl e, st1)
                | Inr result \<Rightarrow>
                    (Inr (Some result),
                     st1 \<lparr> cache := (cache st1)((team_num, event_key) \<mapsto> (Some result, now)) \<rparr>))
             else absent)"

definition get_team_epa_cached ::
  "world \<Rightarrow> int \<Rightarrow> string \<Rightarrow> serve_state \<Rightarrow> (error + cached_rating option) \<times> serve_state" where
  "get_team_epa_cached w team_num event_key st =
     (let now = clock w (ticks st);
          st0 = st \<lparr> ticks := Suc (ticks st) \<rparr>
      in case cache st0 (team_num, event_key) of
           Some (data, ts) \<Rightarrow>
             if now - ts < EPA_CACHE_TTL then (Inr data, st0)
             else fetch_and_store w team_num event_key now st0
         | None \<Rightarrow> fetch_and_store w team_num event_key now st0)"

section \<open>Batch path: aggregation and the training row\<close>

text \<open>
  A match as \<open>fetch_matches_for_event\<close> lets it through (both scores present and
  comparable with 0) and an event record of the match service. \<open>comp_level\<close> and
  \<open>week\<close> are \<open>None\<close> when the key is missing; \<open>week\<close> also when it is null.
\<close>

record alliance =
  team_keys :: "string list"
  score :: int

record match =
  red :: alliance
  blue :: alliance
  comp_level :: "string option"

record event =
  key :: string
  week :: "int option"

text \<open>A Python dict with string keys, in insertion order.\<close>

type_synonym row = "(string \<times> real) list"

definition item :: "row \<Rightarrow> string \<Rightarrow> error + real" where
  "item d k = (case map_of d k of None \<Rightarrow> Inl KeyError | Some v \<Rightarrow> Inr v)"

text \<open>\<open>key.replace("frc", "")\<close>: every occurrence, left to right.\<close>

fun remove_frc :: "string \<Rightarrow> string" where
  "remove_frc [] = []"
| "remove_frc (c # cs) =
     (if take 3 (c # cs) = ''frc'' then remove_frc (drop 2 cs) else c # remove_frc cs)"

text \<open>
  \<open>extract_team_numbers\<close>. Python's \<open>int\<close> on a string is a parameter: \<open>None\<close> where
  it raises ValueError.
\<close>

definition extract_team_numbers :: "(string \<Rightarrow> int option) \<Rightarrow> alliance \<Rightarrow> int list" where
  "extract_team_numbers py_int alliance_data =
     List.map_filter (\<lambda>k. py_int (remove_frc k)) (team_keys alliance_data)"

text \<open>\<open>[e for e in epas if e is not None]\<close>.\<close>

definition valid_of :: "'a option list \<Rightarrow> 'a list" where
  "valid_of epas = List.map_filter (\<lambda>e. e) epas"

text \<open>
  \<open>sum\<close>, \<open>max\<close> and \<open>np.mean\<close> on numbers. \<open>max\<close> of an empty sequence raises
  ValueError. \<open>np.mean\<close> of an empty list is NaN with a warning; every call is
  guarded by a test for the empty list, and the value here is then the 0 of \<open>x / 0\<close>.
\<close>

definition py_sum :: "real list \<Rightarrow> real" where
  "py_sum xs = foldl (+) 0 xs"

fun py_max :: "real list \<Rightarrow> error + real" where
  "py_max [] = Inl ValueError"
| "py_max (x # xs) = Inr (foldl max x xs)"

definition np_mean :: "real list \<Rightarrow> real" where
  "np_mean xs = py_sum xs / of_nat (length xs)"

text \<open>The local function \<open>alliance_features\<close> of \<open>build_feature_vector\<close>.\<close>

definition alliance_features :: "team_rating option list \<Rightarrow> string \<Rightarrow> error + row" where
  "alliance_features epas prefix =
     (let valid = valid_of epas in
      if valid = [] then
        Inr [(prefix @ ''_avg_epa'', 0), (prefix @ ''_avg_auto'', 0),
             (prefix @ ''_avg_teleop'', 0), (prefix @ ''_avg_endgame'', 0),
             (prefix @ ''_sum_epa'', 0), (prefix @ ''_max_epa'', 0)]
      else
        err_bind (py_max (map total valid)) (\<lambda>mx.
          Inr [(prefix @ ''_avg_epa'', np_mean (map total valid)),
               (prefix @ ''_avg_auto'', np_mean (map auto valid)),
               (prefix @ ''_avg_teleop'', np_mean (map teleop valid)),
               (prefix @ ''_avg_endgame'', np_mean (map endgame valid)),
               (prefix @ ''_sum_epa'', py_sum (map total valid)),
               (prefix @ ''_max_epa'', mx)]))"

text \<open>\<open>{"qm": 0, "ef": 1, "qf": 1, "sf": 2, "f": 3}.get(comp_level, 0)\<close> after
  \<open>match.get("comp_level", "qm")\<close>.\<close>

definition comp_encoded :: "string option \<Rightarrow> int" where
  "comp_encoded cl =
     (let c = (case cl of None \<Rightarrow> ''qm'' | Some s \<Rightarrow> s) in
      if c = ''qm'' then 0 else if c = ''ef'' then 1 else if c = ''qf'' then 1
      else if c = ''sf'' then 2 else if c = ''f'' then 3 else 0)"

text \<open>\<open>event.get("week", 0) or 0\<close>.\<close>

definition event_week_of :: "event \<Rightarrow> int" where
  "event_week_of ev = (case week ev of None \<Rightarrow> 0 | Some wk \<Rightarrow> wk)"

text \<open>
  \<open>build_feature_vector\<close> from line 194 on, once the six ratings are fetched. The
  keys of the returned dict are pairwise distinct, so the dict display is the
  concatenation in the order written.
\<close>

definition training_row ::
  "match \<Rightarrow> event \<Rightarrow> team_rating option list \<Rightarrow> team_rating option list \<Rightarrow> error + row option" where
  "training_row m ev red_epas blue_epas =
     (let red_valid = valid_of red_epas; blue_valid = valid_of blue_epas in
      if length red_valid < 2 \<or> length blue_valid < 2 then Inr None
      else
        err_bind (alliance_features red_epas ''red'') (\<lambda>red_feats.
        err_bind (alliance_features blue_epas ''blue'') (\<lambda>blue_feats.
        err_bind (item red_feats ''red_sum_epa'') (\<lambda>rs.
        err_bind (item blue_feats ''blue_sum_epa'') (\<lambda>bs.
        err_bind (item red_feats ''red_avg_epa'') (\<lambda>ra.
        err_bind (item blue_feats ''blue_avg_epa'') (\<lambda>ba.
          let red_score = score (red m); blue_score = score (blue m) in
          if red_score > blue_score \<or> blue_score > red_score then
            Inr (Some (red_feats @ blue_feats @
              [(''comp_level'', of_int (comp_encoded (comp_level m))),
               (''event_week'', of_int (event_week_of ev)),
               (''epa_diff'', rs - bs),
               (''avg_epa_diff'', ra - ba),
               (''winner'', if red_score > blue_score then 1 else 0),
               (''red_score'', of_int red_score),
               (''blue_score'', of_int blue_score),
               (''score_margin'', of_int (red_score - blue_score))]))
          else Inr None)))))))"

text \<open>\<open>[get_team_epa(t, event_key, epa_cache) for t in teams]\<close>.\<close>

fun get_team_epas ::
  "world \<Rightarrow> int list \<Rightarrow> string \<Rightarrow> batch_state \<Rightarrow> (error + team_rating option list) \<times> batch_state" where
  "get_team_epas w [] event_key st = (Inr [], st)"
| "get_team_epas w (t # ts) event_key st =
     (case get_team_epa w t event_key st of
        (Inl e, st1) \<Rightarrow> (Inl e, st1)
      | (Inr r, st1) \<Rightarrow>
          (case get_team_epas w ts event_key st1 of
             (Inl e, st2) \<Rightarrow> (Inl e, st2)
           | (Inr rs, st2) \<Rightarrow> (Inr (r # rs), st2)))"

definition build_feature_vector ::
  "(string \<Rightarrow> int option) \<Rightarrow> world \<Rightarrow> match \<Rightarrow> event \<Rightarrow> batch_state
     \<Rightarrow> (error + row option) \<times> batch_state" where
  "build_feature_vector py_int w m ev st =
     (let red_teams = extract_team_numbers py_int (red m);
          blue_teams = extract_team_numbers py_int (blue m) in
      if length red_teams < 3 \<or> length blue_teams < 3 then (Inr None, st)
      else
        (case get_team_epas w (take 3 red_teams) (key ev) st of
           (Inl e, st1) \<Rightarrow> (Inl e, st1)
         | (Inr red_epas, st1) \<Rightarrow>
             (case get_team_epas w (take 3 blue_teams) (key ev) st1 of
                (Inl e, st2) \<Rightarrow> (Inl e, st2)
              | (Inr blue_epas, st2) \<Rightarrow> (training_row m ev red_epas blue_epas, st2))))"

section \<open>Training: the persisted column list\<close>

definition FEATURE_COLS :: "string list" where
  "FEATURE_COLS =
     [''red_avg_epa'', ''red_avg_auto'', ''red_avg_teleop'', ''red_avg_endgame'',
      ''red_sum_epa'', ''red_max_epa'',
      ''blue_avg_epa'', ''blue_avg_auto'', ''blue_avg_teleop'', ''blue_avg_endgame'',
      ''blue_sum_epa'', ''blue_max_epa'',
      ''comp_level'', ''event_week'', ''epa_diff'', ''avg_epa_diff'']"

section \<open>Serving path: the inference vector and the endpoint\<close>

text \<open>
  The entries of a list handed to \<open>np.mean\<close>, \<open>sum\<close> or \<open>max\<close>, as numbers.
  \<open>np.mean\<close> and \<open>sum\<close> raise TypeError on null, strings and dicts; \<open>sum\<close> also on
  lists.
\<close>

fun mean_entry :: "json \<Rightarrow> error + real" where
  "mean_entry (JList xs) = Inl Unmodelled"
| "mean_entry v = (case float_of v of Some x \<Rightarrow> Inr x | None \<Rightarrow> Inl TypeError)"

definition sum_entry :: "json \<Rightarrow> error + real" where
  "sum_entry v = (case float_of v of Some x \<Rightarrow> Inr x | None \<Rightarrow> Inl TypeError)"

definition max_entry :: "json \<Rightarrow> error + real" where
  "max_entry v = (case float_of v of Some x \<Rightarrow> Inr x | None \<Rightarrow> Inl Unmodelled)"

fun entries :: "(json \<Rightarrow> error + real) \<Rightarrow> json list \<Rightarrow> error + real list" where
  "entries f [] = Inr []"
| "entries f (v # vs) =
     err_bind (f v) (\<lambda>x. err_bind (entries f vs) (\<lambda>xs. Inr (x # xs)))"

text \<open>The local functions of \<open>build_features\<close>; \<open>field\<close> stands for \<open>e[key]\<close>.\<close>

definition avg_or_zero :: "cached_rating list \<Rightarrow> (cached_rating \<Rightarrow> json) \<Rightarrow> error + real" where
  "avg_or_zero epas field =
     (if epas \<noteq> [] then err_bind (entries mean_entry (map field epas)) (\<lambda>xs. Inr (np_mean xs))
      else Inr 0)"

definition sum_or_zero :: "cached_rating list \<Rightarrow> (cached_rating \<Rightarrow> json) \<Rightarrow> error + real" where
  "sum_or_zero epas field =
     (if epas \<noteq> [] then err_bind (entries sum_entry (map field epas)) (\<lambda>xs. Inr (py_sum xs))
      else Inr 0)"

definition max_or_zero :: "cached_rating list \<Rightarrow> (cached_rating \<Rightarrow> json) \<Rightarrow> error + real" where
  "max_or_zero epas field =
     (if epas \<noteq> [] then err_bind (entries max_entry (map field epas)) py_max
      else Inr 0)"

text \<open>The dict display \<open>features\<close>, its values computed in the order written.\<close>

definition features_dict ::
  "cached_rating list \<Rightarrow> cached_rating list \<Rightarrow> int \<Rightarrow> int \<Rightarrow> error + row" where
  "features_dict red_valid blue_valid comp_lvl event_wk =
     err_bind (avg_or_zero red_valid c_total) (\<lambda>f1.
     err_bind (avg_or_zero red_valid c_auto) (\<lambda>f2.
     err_bind (avg_or_zero red_valid c_teleop) (\<lambda>f3.
     err_bind (avg_or_zero red_valid c_endgame) (\<lambda>f4.
     err_bind (sum_or_zero red_valid c_total) (\<lambda>f5.
     err_bind (max_or_zero red_valid c_total) (\<lambda>f6.
     err_bind (avg_or_zero blue_valid c_total) (\<lambda>f7.
     err_bind (avg_or_zero blue_valid c_auto) (\<lambda>f8.
     err_bind (avg_or_zero blue_valid c_teleop) (\<lambda>f9.
     err_bind (avg_or_zero blue_valid c_endgame) (\<lambda>f10.
     err_bind (sum_or_zero blue_valid c_total) (\<lambda>f11.
     err_bind (max_or_zero blue_valid c_total) (\<lambda>f12.
     err_bind (sum_or_zero red_valid c_total) (\<lambda>rs.
     err_bind (sum_or_zero blue_valid c_total) (\<lambda>bs.
     err_bind (avg_or_zero red_valid c_total) (\<lambda>ra.
     err_bind (avg_or_zero blue_valid c_total) (\<lambda>ba.
       Inr [(''red_avg_epa'', f1), (''red_avg_auto'', f2), (''red_avg_teleop'', f3),
            (''red_avg_endgame'', f4), (''red_sum_epa'', f5), (''red_max_epa'', f6),
            (''blue_avg_epa'', f7), (''blue_avg_auto'', f8), (''blue_avg_teleop'', f9),
            (''blue_avg_endgame'', f10), (''blue_sum_epa'', f11), (''blue_max_epa'', f12),
            (''comp_level'', of_int comp_lvl), (''event_week'', of_int event_wk),
            (''epa_diff'', rs - bs), (''avg_epa_diff'', ra - ba)]))))))))))))))))"

text \<open>\<open>[features[col] for col in feature_cols]\<close>.\<close>

fun select_cols :: "row \<Rightarrow> string list \<Rightarrow> error + real list" where
  "select_cols features [] = Inr []"
| "select_cols features (col # cols) =
     err_bind (item features col) (\<lambda>x.
     err_bind (select_cols features cols) (\<lambda>xs. Inr (x # xs)))"

text \<open>\<open>build_features\<close> from line 85 on, once the ratings are fetched. The result
  is the single row of the 1-by-n array.\<close>

definition inference_vector ::
  "string list \<Rightarrow> cached_rating option list \<Rightarrow> cached_rating option list \<Rightarrow> int \<Rightarrow> int
     \<Rightarrow> error + real list option" where
  "inference_vector cols red_epas blue_epas comp_lvl event_wk =
     (let red_valid = valid_of red_epas; blue_valid = valid_of blue_epas in
      if red_valid = [] \<or> blue_valid = [] then Inr None
      else
        err_bind (features_dict red_valid blue_valid comp_lvl event_wk) (\<lambda>features.
        err_bind (select_cols features cols) (\<lambda>x. Inr (Some x))))"

text \<open>\<open>[get_team_epa_cached(t, event_key) for t in teams]\<close>.\<close>

fun get_team_epas_cached ::
  "world \<Rightarrow> int list \<Rightarrow> string \<Rightarrow> serve_state \<Rightarrow> (error + cached_rating option list) \<times> serve_state" where
  "get_team_epas_cached w [] event_key st = (Inr [], st)"
| "get_team_epas_cached w (t # ts) event_key st =
     (case get_team_epa_cached w t event_key st of
        (Inl e, st1) \<Rightarrow> (Inl e, st1)
      | (Inr r, st1) \<Rightarrow>
          (case get_team_epas_cached w ts event_key st1 of
             (Inl e, st2) \<Rightarrow> (Inl e, st2)
           | (Inr rs, st2) \<Rightarrow> (Inr (r # rs), st2)))"

text \<open>
  The artifacts loaded at start-up. The classifier, the regressors and the scaler are
  opaque functions of the vector; \<open>clf\<close> is \<open>predict_proba(...)[0, 1]\<close>, the
  probability that red wins.
\<close>

record models =
  MODELS_LOADED :: bool
  feature_cols :: "string list"
  scaler :: "real list \<Rightarrow> real list"
  clf :: "real list \<Rightarrow> real"
  red_reg :: "real list \<Rightarrow> real"
  blue_reg :: "real list \<Rightarrow> real"

definition build_features ::
  "models \<Rightarrow> world \<Rightarrow> int list \<Rightarrow> int list \<Rightarrow> string \<Rightarrow> int \<Rightarrow> int \<Rightarrow> serve_state
     \<Rightarrow> (error + real list option) \<times> serve_state" where
  "build_features ms w red_teams blue_teams event_key comp_lvl event_wk st =
     (case get_team_epas_cached w red_teams event_key st of
        (Inl e, st1) \<Rightarrow> (Inl e, st1)
      | (Inr red_epas, st1) \<Rightarrow>
          (case get_team_epas_cached w blue_teams event_key st1 of
             (Inl e, st2) \<Rightarrow> (Inl e, st2)
           | (Inr blue_epas, st2) \<Rightarrow>
               (inference_vector (feature_cols ms) red_epas blue_epas comp_lvl event_wk, st2)))"

record predict_request =
  red_teams :: "int list"
  blue_teams :: "int list"
  event_key :: string
  req_comp_level :: int
  req_event_week :: int

record predict_response =
  winner :: string
  win_probability :: real
  red_score :: int
  blue_score :: int
  margin :: int

text \<open>
  Python's \<open>round\<close>: to the nearest integer, a tie to the even one; with a number of
  digits, the same on the scaled value (on exact numbers here, where Python rounds
  the binary float).
\<close>

definition py_round :: "real \<Rightarrow> int" where
  "py_round x =
     (let f = \<lfloor>x\<rfloor>; d = x - of_int f in
      if d < 1 / 2 then f else if 1 / 2 < d then f + 1 else if even f then f else f + 1)"

definition py_round_digits :: "real \<Rightarrow> nat \<Rightarrow> real" where
  "py_round_digits x n = of_int (py_round (x * 10 ^ n)) / 10 ^ n"

text \<open>
  What a call of the endpoint ends in: the \<open>HTTPException\<close> it raises on purpose,
  with its status; an exception that escapes from feature building; or the response.
\<close>

datatype predict_outcome = HTTPException nat | Unhandled error | Returned predict_response

definition predict ::
  "models \<Rightarrow> world \<Rightarrow> predict_request \<Rightarrow> serve_state \<Rightarrow> predict_outcome \<times> serve_state" where
  "predict ms w req st =
     (if \<not> MODELS_LOADED ms then (HTTPException 503, st)
      else if length (red_teams req) \<noteq> 3 \<or> length (blue_teams req) \<noteq> 3
        then (HTTPException 400, st)
      else
        (case build_features ms w (red_teams req) (blue_teams req) (event_key req)
                (req_comp_level req) (req_event_week req) st of
           (Inl e, st1) \<Rightarrow> (Unhandled e, st1)
         | (Inr None, st1) \<Rightarrow> (HTTPException 422, st1)
         | (Inr (Some X), st1) \<Rightarrow>
             (let X_scaled = scaler ms X;
                  win_prob = clf ms X_scaled;
                  rscore = max 0 (py_round (red_reg ms X_scaled));
                  bscore = max 0 (py_round (blue_reg ms X_scaled));
                  wnr = (if win_prob > 0.5 then ''red'' else ''blue'')
              in (Returned \<lparr> winner = wnr,
                        win_probability =
                          py_round_digits (if wnr = ''red'' then win_prob else 1 - win_prob) 3,
                        red_score = rscore,
                        blue_score = bscore,
                        margin = \<bar>rscore - bscore\<bar> \<rparr>, st1))))"

section \<open>Reference notions and sample inputs\<close>

text \<open>
  The flat fallback read as "the first key that is present wins", and read as "the
  first key whose value is truthy wins"; the coercion "a number, or else 0.0".
\<close>

fun first_present :: "(string \<times> json) list \<Rightarrow> string list \<Rightarrow> json" where
  "first_present d [] = JNull"
| "first_present d (k # ks) = (case map_of d k of Some v \<Rightarrow> v | None \<Rightarrow> first_present d ks)"

definition claimed_flat_rating :: "(string \<times> json) list \<Rightarrow> team_rating" where
  "claimed_flat_rating epa =
     \<lparr> total = safe_mean (first_present epa [''total_points'', ''total'', ''mean'', ''epa'']),
       auto = safe_mean (first_present epa [''auto_points'', ''auto'']),
       teleop = safe_mean (first_present epa [''teleop_points'', ''teleop'']),
       endgame = safe_mean (first_present epa [''endgame_points'', ''endgame'']) \<rparr>"

fun first_truthy :: "(string \<times> json) list \<Rightarrow> string list \<Rightarrow> json" where
  "first_truthy d [] = JNull"
| "first_truthy d (k # ks) = (if truthy (dict_get d k) then dict_get d k else first_truthy d ks)"

definition number_or_zero :: "json \<Rightarrow> real" where
  "number_or_zero v = (case float_of v of Some x \<Rightarrow> x | None \<Rightarrow> 0)"

definition is_dict :: "json \<Rightarrow> bool" where
  "is_dict v = (case v of JDict d \<Rightarrow> True | _ \<Rightarrow> False)"

text \<open>A world that answers every read alike, and the states at process start.\<close>

definition const_world :: "http_result \<Rightarrow> world" where
  "const_world r = \<lparr> net = (\<lambda>n t e. r), clock = (\<lambda>n. 0) \<rparr>"

definition batch_init :: batch_state where
  "batch_init = \<lparr> epa_cache = Map.empty, outbound = [] \<rparr>"

definition serve_init :: serve_state where
  "serve_init = \<lparr> cache = Map.empty, fetched = [], ticks = 0 \<rparr>"

text \<open>Three payloads: the rating as a bare number, as flat keys, and missing.\<close>

definition scalar_payload :: json where
  "scalar_payload = JDict [(''team'', JInt 254), (''epa'', JFloat 12.5)]"

definition flat_payload :: json where
  "flat_payload =
     JDict [(''team'', JInt 254),
            (''epa'', JDict [(''total_points'', JFloat 42.5), (''auto_points'', JFloat 10),
                             (''teleop_points'', JFloat 25), (''endgame_points'', JFloat 7.5)])]"

definition no_epa_payload :: json where
  "no_epa_payload = JDict [(''team'', JInt 254)]"

definition zero_rating :: cached_rating where
  "zero_rating = \<lparr> c_total = JInt 0, c_auto = JInt 0, c_teleop = JInt 0, c_endgame = JInt 0 \<rparr>"

text \<open>A structured rating, its breakdown, and a flat rating whose first key is zero.\<close>

definition structured_breakdown :: "(string \<times> json) list" where
  "structured_breakdown =
     [(''total_points'', JDict [(''mean'', JFloat 42.5)]),
      (''auto_points'', JDict [(''mean'', JInt 10)]),
      (''teleop_points'', JDict [(''mean'', JStr ''n/a'')]),
      (''endgame_points'', JFloat 7.5)]"

definition structured_epa :: "(string \<times> json) list" where
  "structured_epa = [(''breakdown'', JDict structured_breakdown)]"

definition flat_epa :: "(string \<times> json) list" where
  "flat_epa = [(''total_points'', JInt 0), (''total'', JInt 5), (''auto'', JFloat 1.5)]"

text \<open>Sample ratings with a given total, typed and as cached by the server.\<close>

definition rated :: "real \<Rightarrow> team_rating" where
  "rated x = \<lparr> total = x, auto = 1, teleop = 2, endgame = 3 \<rparr>"

definition cached :: "json \<Rightarrow> cached_rating" where
  "cached v = \<lparr> c_total = v, c_auto = JInt 1, c_teleop = JInt 2, c_endgame = JInt 3 \<rparr>"

text \<open>
  A run of further batch lookups, whatever they return, and a world whose clock
  advances by a fixed step at every reading.
\<close>

definition batch_lookups :: "world \<Rightarrow> cache_key list \<Rightarrow> batch_state \<Rightarrow> batch_state" where
  "batch_lookups w ks st = fold (\<lambda>k s. snd (get_team_epa w (fst k) (snd k) s)) ks st"

definition ticking_world :: "http_result \<Rightarrow> real \<Rightarrow> world" where
  "ticking_world r step = \<lparr> net = (\<lambda>n t e. r), clock = (\<lambda>n. step * real n) \<rparr>"

text \<open>
  A rating service that answers 404 while the clock advances 350 seconds per reading,
  and the states after the first lookup of team 254 there.
\<close>

definition absent_world :: world where
  "absent_world = ticking_world (Response 404 JNull) 350"

definition batch_after_first :: batch_state where
  "batch_after_first =
     \<lparr> epa_cache = [(254, ''2024casj'') \<mapsto> None], outbound = [(254, ''2024casj'')] \<rparr>"

definition serve_after_first :: serve_state where
  "serve_after_first =
     \<lparr> cache = [(254, ''2024casj'') \<mapsto> (None, 0)], fetched = [(254, ''2024casj'')],
       ticks = 1 \<rparr>"

text \<open>
  The summary entries of an alliance over its valid ratings, and the test that a
  cached rating holds numbers in all four fields.
\<close>

definition summary_row :: "string \<Rightarrow> team_rating list \<Rightarrow> row" where
  "summary_row p valid =
     [(p @ ''_avg_epa'', sum_list (map total valid) / real (length valid)),
      (p @ ''_avg_auto'', sum_list (map auto valid) / real (length valid)),
      (p @ ''_avg_teleop'', sum_list (map teleop valid) / real (length valid)),
      (p @ ''_avg_endgame'', sum_list (map endgame valid) / real (length valid)),
      (p @ ''_sum_epa'', sum_list (map total valid)),
      (p @ ''_max_epa'', Max (set (map total valid)))]"

definition numeric_rating :: "cached_rating \<Rightarrow> bool" where
  "numeric_rating r =
     (float_of (c_total r) \<noteq> None \<and> float_of (c_auto r) \<noteq> None
      \<and> float_of (c_teleop r) \<noteq> None \<and> float_of (c_endgame r) \<noteq> None)"

text \<open>
  A sample reading of \<open>int\<close> on strings: the value of a non-empty string of decimal
  digits, ValueError on anything else. (Python's \<open>int\<close> accepts more: a sign,
  surrounding blanks, underscores between digits.)
\<close>

definition digit_of :: "char \<Rightarrow> int option" where
  "digit_of c = map_of (zip ''0123456789'' [0, 1, 2, 3, 4, 5, 6, 7, 8, 9]) c"

fun decimal_from :: "int \<Rightarrow> string \<Rightarrow> int option" where
  "decimal_from acc [] = Some acc"
| "decimal_from acc (c # cs) =
     (case digit_of c of None \<Rightarrow> None | Some d \<Rightarrow> decimal_from (10 * acc + d) cs)"

definition decimal :: "string \<Rightarrow> int option" where
  "decimal s = (if s = [] then None else decimal_from 0 s)"

text \<open>
  A structured payload with numbers throughout, a rating service that knows team 254
  only, a qualification match that red won and the same match tied, and their event.
\<close>

definition clean_payload :: json where
  "clean_payload =
     JDict [(''team'', JInt 254),
            (''epa'', JDict [(''breakdown'',
               JDict [(''total_points'', JDict [(''mean'', JInt 40)]),
                      (''auto_points'', JDict [(''mean'', JInt 10)]),
                      (''teleop_points'', JDict [(''mean'', JInt 25)]),
                      (''endgame_points'', JDict [(''mean'', JInt 5)])])])]"

definition clean_rating :: team_rating where
  "clean_rating = \<lparr> total = 40, auto = 10, teleop = 25, endgame = 5 \<rparr>"

definition clean_cached :: cached_rating where
  "clean_cached = \<lparr> c_total = JInt 40, c_auto = JInt 10, c_teleop = JInt 25, c_endgame = JInt 5 \<rparr>"

definition only_254 :: world where
  "only_254 =
     \<lparr> net = (\<lambda>n t e. if t = 254 then Response 200 clean_payload else Response 404 JNull),
       clock = (\<lambda>n. 0) \<rparr>"

definition sample_match :: match where
  "sample_match =
     \<lparr> red = \<lparr> team_keys = [''frc254'', ''frc1678'', ''frc971''], score = 120 \<rparr>,
       blue = \<lparr> team_keys = [''frc118'', ''frc148'', ''frc2056''], score = 95 \<rparr>,
       comp_level = Some ''sf'' \<rparr>"

definition tied_match :: match where
  "tied_match =
     \<lparr> red = \<lparr> team_keys = [''frc254'', ''frc1678'', ''frc971''], score = 95 \<rparr>,
       blue = \<lparr> team_keys = [''frc118'', ''frc148'', ''frc2056''], score = 95 \<rparr>,
       comp_level = Some ''sf'' \<rparr>"

definition sample_event :: event where
  "sample_event = \<lparr> key = ''2024casj'', week = Some 2 \<rparr>"

text \<open>
  A rating service that knows every team, the match lost by red, the training row of
  the sample match, and the three ratings of an alliance there.
\<close>

definition clean_world :: world where
  "clean_world = const_world (Response 200 clean_payload)"

definition lost_match :: match where
  "lost_match =
     \<lparr> red = \<lparr> team_keys = [''frc254'', ''frc1678'', ''frc971''], score = 80 \<rparr>,
       blue = \<lparr> team_keys = [''frc118'', ''frc148'', ''frc2056''], score = 95 \<rparr>,
       comp_level = Some ''sf'' \<rparr>"

definition sample_row :: row where
  "sample_row =
     [(''red_avg_epa'', 40), (''red_avg_auto'', 10), (''red_avg_teleop'', 25),
      (''red_avg_endgame'', 5), (''red_sum_epa'', 120), (''red_max_epa'', 40),
      (''blue_avg_epa'', 40), (''blue_avg_auto'', 10), (''blue_avg_teleop'', 25),
      (''blue_avg_endgame'', 5), (''blue_sum_epa'', 120), (''blue_max_epa'', 40),
      (''comp_level'', 2), (''event_week'', 2), (''epa_diff'', 0), (''avg_epa_diff'', 0),
      (''winner'', 1), (''red_score'', 120), (''blue_score'', 95), (''score_margin'', 25)]"

definition three_clean :: "team_rating option list" where
  "three_clean = [Some clean_rating, Some clean_rating, Some clean_rating]"

definition three_cached :: "cached_rating option list" where
  "three_cached = [Some clean_cached, Some clean_cached, Some clean_cached]"

definition sample_models :: models where
  "sample_models =
     \<lparr> MODELS_LOADED = True, feature_cols = FEATURE_COLS, scaler = (\<lambda>x. x),
       clf = (\<lambda>x. 0.7004), red_reg = (\<lambda>x. 100.5), blue_reg = (\<lambda>x. - 3) \<rparr>"

text \<open>The features and the vector of a request with three known teams on each side.\<close>

definition sample_features :: row where
  "sample_features =
     [(''red_avg_epa'', 40), (''red_avg_auto'', 10), (''red_avg_teleop'', 25),
      (''red_avg_endgame'', 5), (''red_sum_epa'', 120), (''red_max_epa'', 40),
      (''blue_avg_epa'', 40), (''blue_avg_auto'', 10), (''blue_avg_teleop'', 25),
      (''blue_avg_endgame'', 5), (''blue_sum_epa'', 120), (''blue_max_epa'', 40),
      (''comp_level'', 0), (''event_week'', 2), (''epa_diff'', 0), (''avg_epa_diff'', 0)]"

definition sample_vector :: "real list" where
  "sample_vector = [40, 10, 25, 5, 120, 40, 40, 10, 25, 5, 120, 40, 0, 2, 0, 0]"

text \<open>An alliance with one valid rating out of three.\<close>

definition one_of_three :: "team_rating option list" where
  "one_of_three = [Some clean_rating, None, None]"

definition one_cached :: "cached_rating option list" where
  "one_cached = [Some clean_cached, None, None]"

text \<open>
  The response that \<open>predict\<close> assembles from a feature vector, and sample
  requests: one well-formed, one with two red teams; the models not loaded.
\<close>

definition response_of :: "models \<Rightarrow> real list \<Rightarrow> predict_response" where
  "response_of ms X =
     \<lparr> winner = (if clf ms (scaler ms X) > 0.5 then ''red'' else ''blue''),
       win_probability =
         py_round_digits (if clf ms (scaler ms X) > 0.5 then clf ms (scaler ms X)
                          else 1 - clf ms (scaler ms X)) 3,
       red_score = max 0 (py_round (red_reg ms (scaler ms X))),
       blue_score = max 0 (py_round (blue_reg ms (scaler ms X))),
       margin = \<bar>max 0 (py_round (red_reg ms (scaler ms X)))
                - max 0 (py_round (blue_reg ms (scaler ms X)))\<bar> \<rparr>"

definition sample_request :: predict_request where
  "sample_request =
     \<lparr> red_teams = [254, 1678, 971], blue_teams = [118, 148, 2056],
       event_key = ''2024casj'', req_comp_level = 0, req_event_week = 2 \<rparr>"

definition short_request :: predict_request where
  "short_request =
     \<lparr> red_teams = [254, 1678], blue_teams = [118, 148, 2056],
       event_key = ''2024casj'', req_comp_level = 0, req_event_week = 2 \<rparr>"

definition unloaded_models :: models where
  "unloaded_models = sample_models \<lparr> MODELS_LOADED := False \<rparr>"

definition sample_response :: predict_response where
  "sample_response =
     \<lparr> winner = ''red'', win_probability = 0.7, red_score = 100, blue_score = 0,
       margin = 100 \<rparr>"

text \<open>Models whose classifier favours blue, and the response they lead to.\<close>

definition underdog_models :: models where
  "underdog_models = sample_models \<lparr> clf := (\<lambda>x. 0.2996) \<rparr>"

definition underdog_response :: predict_response where
  "underdog_response =
     \<lparr> winner = ''blue'', win_probability = 0.7, red_score = 100, blue_score = 0,
       margin = 100 \<rparr>"

text \<open>
  What one outbound read of the serving client amounts to: absent on a failure of the
  HTTP library or a status other than 200, the extracted rating on status 200. Then a
  rating service that answers 404 to the first read and knows the team from the second
  on, with the clock advancing 350 seconds per reading, and the serving state there
  after the third lookup of team 254.
\<close>

definition answer_of :: "http_result \<Rightarrow> error + cached_rating option" where
  "answer_of resp =
     (case resp of
        RequestException \<Rightarrow> Inr None
      | Response status data \<Rightarrow>
          if status = 200 then
            (case serve_extract data of Inl e \<Rightarrow> Inl e | Inr r \<Rightarrow> Inr (Some r))
          else Inr None)"

definition recovering_world :: world where
  "recovering_world =
     \<lparr> net = (\<lambda>n t e. if n = 0 then Response 404 JNull else Response 200 clean_payload),
       clock = (\<lambda>n. 350 * real n) \<rparr>"

definition serve_after_third :: serve_state where
  "serve_after_third =
     \<lparr> cache = [(254, ''2024casj'') \<mapsto> (Some clean_cached, 700)],
       fetched = [(254, ''2024casj''), (254, ''2024casj'')], ticks = 3 \<rparr>"

text \<open>
  A structured payload whose total mean is null, the rating the server caches from
  it, and a rating service that answers with it for team 254 only.
\<close>

definition null_mean_payload :: json where
  "null_mean_payload =
     JDict [(''team'', JInt 254),
            (''epa'', JDict [(''breakdown'',
               JDict [(''total_points'', JDict [(''mean'', JNull)]),
                      (''auto_points'', JDict [(''mean'', JInt 10)]),
                      (''teleop_points'', JDict [(''mean'', JInt 25)]),
                      (''endgame_points'', JDict [(''mean'', JInt 5)])])])]"

definition null_cached :: cached_rating where
  "null_cached = \<lparr> c_total = JNull, c_auto = JInt 10, c_teleop = JInt 25, c_endgame = JInt 5 \<rparr>"

definition null_254 :: world where
  "null_254 =
     \<lparr> net = (\<lambda>n t e. if t = 254 then Response 200 null_mean_payload else Response 404 JNull),
       clock = (\<lambda>n. 0) \<rparr>"

section \<open>Rating extraction\<close>

lemmas fetch_eval =
  const_world_def batch_init_def serve_init_def get_team_epa_def get_team_epa_cached_def
  fetch_and_store_def batch_extract_def serve_extract_def category_mean_def err_bind_def
  dict_get_def dict_get_default_def py_or_def Let_def

text \<open>
  C1. The batch extraction and the serving extraction should give the same result on
  every payload. They do not. On a payload whose rating is a bare number the batch
  path yields the rating and the serving path raises AttributeError; on a payload
  with flat rating keys the batch path yields the rating and the serving path a
  rating of zeros; on a payload without a rating the batch path yields absent and the
  serving path again a rating of zeros.
\<close>

theorem extraction_paths_diverge:
  "fst (get_team_epa (const_world (Response 200 scalar_payload)) 254 ''2024casj'' batch_init)
     = Inr (Some \<lparr> total = 12.5, auto = 0, teleop = 0, endgame = 0 \<rparr>)
   \<and> fst (get_team_epa_cached (const_world (Response 200 scalar_payload)) 254 ''2024casj'' serve_init)
     = Inl AttributeError
   \<and> fst (get_team_epa (const_world (Response 200 flat_payload)) 254 ''2024casj'' batch_init)
     = Inr (Some \<lparr> total = 42.5, auto = 10, teleop = 25, endgame = 7.5 \<rparr>)
   \<and> fst (get_team_epa_cached (const_world (Response 200 flat_payload)) 254 ''2024casj'' serve_init)
     = Inr (Some zero_rating)
   \<and> fst (get_team_epa (const_world (Response 200 no_epa_payload)) 254 ''2024casj'' batch_init)
     = Inr None
   \<and> fst (get_team_epa_cached (const_world (Response 200 no_epa_payload)) 254 ''2024casj'' serve_init)
     = Inr (Some zero_rating)"
  by (simp add: fetch_eval scalar_payload_def flat_payload_def no_epa_payload_def zero_rating_def)

text \<open>
  C3. A single rating fetch should never raise. The serving client raises
  AttributeError on a status-200 payload whose rating is a bare number, a shape the
  batch client handles; the batch client raises TypeError on a status-200 body that
  is a JSON string containing \<open>epa\<close>, and on one that is a non-zero number.
\<close>

theorem rating_fetch_raises:
  "fst (get_team_epa_cached (const_world (Response 200 scalar_payload)) 254 ''2024casj'' serve_init)
     = Inl AttributeError
   \<and> fst (get_team_epa (const_world (Response 200 (JStr ''no epa for this team''))) 254 ''2024casj'' batch_init)
     = Inl TypeError
   \<and> fst (get_team_epa (const_world (Response 200 (JInt 5))) 254 ''2024casj'' batch_init)
     = Inl TypeError"
  by (simp add: fetch_eval scalar_payload_def)

text \<open>
  What does hold: the batch extraction returns on every dict and on null, and on a
  payload whose breakdown holds the four point categories as dicts with a numeric
  \<open>mean\<close> the two paths extract the same four numbers, the serving path without
  coercing them.
\<close>

lemma batch_extract_dict_returns: "\<exists>r. batch_extract (JDict d) = Inr r"
  by (auto simp: batch_extract_def err_bind_def split: option.splits)

lemma batch_extract_null: "batch_extract JNull = Inr None"
  by (simp add: batch_extract_def)

lemma falsy_safe_mean: "\<not> truthy v \<Longrightarrow> safe_mean v = 0"
  by (cases v) (auto simp: dict_get_def dict_get_default_def)

lemma or_chain2:
  "safe_mean (py_or (dict_get d a) (dict_get d b)) = safe_mean (first_truthy d [a, b])"
  by (simp add: py_or_def falsy_safe_mean)

lemma or_chain4:
  "safe_mean (py_or (dict_get d a) (py_or (dict_get d b) (py_or (dict_get d c) (dict_get d e))))
     = safe_mean (first_truthy d [a, b, c, e])"
  by (simp add: py_or_def falsy_safe_mean)

lemma rating_breakdown:
  "dict_get epa ''breakdown'' = JDict b \<Longrightarrow>
   rating_of_epa (JDict epa) =
     Some \<lparr> total = safe_mean (dict_get b ''total_points''),
            auto = safe_mean (dict_get b ''auto_points''),
            teleop = safe_mean (dict_get b ''teleop_points''),
            endgame = safe_mean (dict_get b ''endgame_points'') \<rparr>"
  by simp

lemma rating_flat:
  "\<not> is_dict (dict_get epa ''breakdown'') \<Longrightarrow>
   rating_of_epa (JDict epa) =
     Some \<lparr> total = safe_mean (first_truthy epa [''total_points'', ''total'', ''mean'', ''epa'']),
            auto = safe_mean (first_truthy epa [''auto_points'', ''auto'']),
            teleop = safe_mean (first_truthy epa [''teleop_points'', ''teleop'']),
            endgame = safe_mean (first_truthy epa [''endgame_points'', ''endgame'']) \<rparr>"
  unfolding rating_of_epa.simps or_chain2[symmetric] or_chain4[symmetric]
  by (cases "dict_get epa ''breakdown''") (simp_all add: is_dict_def)

lemma rating_scalar:
  "float_of v = Some x \<Longrightarrow>
   rating_of_epa v = Some \<lparr> total = x, auto = 0, teleop = 0, endgame = 0 \<rparr>"
  by (cases v) simp_all

lemma rating_dict_present: "rating_of_epa (JDict epa) \<noteq> None"
  by (cases "dict_get epa ''breakdown''") simp_all

lemma safe_mean_category: "safe_mean (JDict c) = number_or_zero (dict_get c ''mean'')"
  by (simp add: number_or_zero_def)

lemma safe_mean_not_dict: "\<not> is_dict v \<Longrightarrow> safe_mean v = number_or_zero v"
  by (cases v) (simp_all add: number_or_zero_def is_dict_def)

lemma batch_extract_epa:
  "map_of data ''epa'' = Some epa \<Longrightarrow> batch_extract (JDict data) = Inr (rating_of_epa epa)"
  by (auto simp: batch_extract_def err_bind_def)

lemma extraction_paths_agree:
  assumes "map_of data ''epa'' = Some (JDict epa)"
    and "map_of epa ''breakdown'' = Some (JDict b)"
    and "map_of b ''total_points'' = Some (JDict ct)" "map_of ct ''mean'' = Some vt"
    and "map_of b ''auto_points'' = Some (JDict ca)" "map_of ca ''mean'' = Some va"
    and "map_of b ''teleop_points'' = Some (JDict cl)" "map_of cl ''mean'' = Some vl"
    and "map_of b ''endgame_points'' = Some (JDict ce)" "map_of ce ''mean'' = Some ve"
    and "float_of vt = Some xt" "float_of va = Some xa" "float_of vl = Some xl"
      "float_of ve = Some xe"
  shows "batch_extract (JDict data)
           = Inr (Some \<lparr> total = xt, auto = xa, teleop = xl, endgame = xe \<rparr>)"
    and "serve_extract (JDict data)
           = Inr \<lparr> c_total = vt, c_auto = va, c_teleop = vl, c_endgame = ve \<rparr>"
proof -
  show "batch_extract (JDict data)
           = Inr (Some \<lparr> total = xt, auto = xa, teleop = xl, endgame = xe \<rparr>)"
    using assms by (simp add: batch_extract_epa dict_get_def dict_get_default_def)
  show "serve_extract (JDict data)
           = Inr \<lparr> c_total = vt, c_auto = va, c_teleop = vl, c_endgame = ve \<rparr>"
    using assms
    by (simp add: serve_extract_def category_mean_def err_bind_def dict_get_default_def)
qed

text \<open>
  C4, as stated: without a breakdown, each field comes from the first of its flat
  keys in priority order. With \<open>total_points\<close> present and 0 and \<open>total\<close> 5 the
  first key gives 0; the code skips a value that is falsy and gives 5.
\<close>

theorem flat_priority_counterexample:
  "batch_extract (JDict [(''epa'', JDict [(''total_points'', JInt 0), (''total'', JInt 5)])])
     \<noteq> Inr (Some (claimed_flat_rating [(''total_points'', JInt 0), (''total'', JInt 5)]))"
  by (simp add: batch_extract_def err_bind_def claimed_flat_rating_def dict_get_def
        dict_get_default_def py_or_def)

text \<open>
  C4, amended. For a payload whose \<open>epa\<close> entry is a dict the batch extraction
  returns a rating, never absent. With a breakdown dict each field is
  \<open>safe_mean\<close> of the named point category, which for a category dict is its
  \<open>mean\<close> coerced. Without one, each field is \<open>safe_mean\<close> of the first of its
  flat keys, in the fixed priority order, whose value is truthy (not null, zero,
  false or empty), and of null when there is none. A bare number as \<open>epa\<close> gives
  that number as total and zeros elsewhere. The coercion gives 0 for whatever is not
  a number.
\<close>

theorem rating_fallback_chain:
  "(map_of data ''epa'' = Some (JDict epa) \<longrightarrow>
      (\<exists>r. batch_extract (JDict data) = Inr (Some r)))
   \<and> (map_of data ''epa'' = Some (JDict epa) \<and> dict_get epa ''breakdown'' = JDict b \<longrightarrow>
      batch_extract (JDict data) =
        Inr (Some \<lparr> total = safe_mean (dict_get b ''total_points''),
                     auto = safe_mean (dict_get b ''auto_points''),
                     teleop = safe_mean (dict_get b ''teleop_points''),
                     endgame = safe_mean (dict_get b ''endgame_points'') \<rparr>))
   \<and> (map_of data ''epa'' = Some (JDict epa) \<and> \<not> is_dict (dict_get epa ''breakdown'') \<longrightarrow>
      batch_extract (JDict data) =
        Inr (Some \<lparr> total = safe_mean (first_truthy epa [''total_points'', ''total'', ''mean'', ''epa'']),
                     auto = safe_mean (first_truthy epa [''auto_points'', ''auto'']),
                     teleop = safe_mean (first_truthy epa [''teleop_points'', ''teleop'']),
                     endgame = safe_mean (first_truthy epa [''endgame_points'', ''endgame'']) \<rparr>))
   \<and> (map_of data ''epa'' = Some v \<and> float_of v = Some x \<longrightarrow>
      batch_extract (JDict data) = Inr (Some \<lparr> total = x, auto = 0, teleop = 0, endgame = 0 \<rparr>))
   \<and> safe_mean (JDict c) = number_or_zero (dict_get c ''mean'')
   \<and> (\<not> is_dict v \<longrightarrow> safe_mean v = number_or_zero v)
   \<and> (float_of v = None \<longrightarrow> number_or_zero v = 0)"
proof -
  have present: "map_of data ''epa'' = Some (JDict epa) \<longrightarrow>
      (\<exists>r. batch_extract (JDict data) = Inr (Some r))"
    using rating_dict_present [of epa] by (auto simp: batch_extract_epa)
  have structured: "map_of data ''epa'' = Some (JDict epa) \<and> dict_get epa ''breakdown'' = JDict b \<longrightarrow>
      batch_extract (JDict data) =
        Inr (Some \<lparr> total = safe_mean (dict_get b ''total_points''),
                     auto = safe_mean (dict_get b ''auto_points''),
                     teleop = safe_mean (dict_get b ''teleop_points''),
                     endgame = safe_mean (dict_get b ''endgame_points'') \<rparr>)"
    by (simp add: batch_extract_epa rating_breakdown del: rating_of_epa.simps)
  have flat: "map_of data ''epa'' = Some (JDict epa) \<and> \<not> is_dict (dict_get epa ''breakdown'') \<longrightarrow>
      batch_extract (JDict data) =
        Inr (Some \<lparr> total = safe_mean (first_truthy epa [''total_points'', ''total'', ''mean'', ''epa'']),
                     auto = safe_mean (first_truthy epa [''auto_points'', ''auto'']),
                     teleop = safe_mean (first_truthy epa [''teleop_points'', ''teleop'']),
                     endgame = safe_mean (first_truthy epa [''endgame_points'', ''endgame'']) \<rparr>)"
    by (simp add: batch_extract_epa rating_flat del: rating_of_epa.simps first_truthy.simps)
  have scalar: "map_of data ''epa'' = Some v \<and> float_of v = Some x \<longrightarrow>
      batch_extract (JDict data) = Inr (Some \<lparr> total = x, auto = 0, teleop = 0, endgame = 0 \<rparr>)"
    by (simp add: batch_extract_epa rating_scalar)
  have coerce: "float_of v = None \<longrightarrow> number_or_zero v = 0"
    by (simp add: number_or_zero_def)
  from present structured flat scalar safe_mean_category [of c] safe_mean_not_dict [of v] coerce
  show ?thesis by blast
qed

theorem rating_fallback_chain_witness:
  "batch_extract (JDict [(''epa'', JDict structured_epa)])
     = Inr (Some \<lparr> total = 42.5, auto = 10, teleop = 0, endgame = 7.5 \<rparr>)
   \<and> \<not> is_dict (dict_get flat_epa ''breakdown'')
   \<and> batch_extract (JDict [(''epa'', JDict flat_epa)])
     = Inr (Some \<lparr> total = 5, auto = 1.5, teleop = 0, endgame = 0 \<rparr>)
   \<and> batch_extract (JDict [(''epa'', JInt 12)])
     = Inr (Some \<lparr> total = 12, auto = 0, teleop = 0, endgame = 0 \<rparr>)
   \<and> float_of (JStr ''n/a'') = None \<and> number_or_zero (JStr ''n/a'') = 0"
proof -
  have h1: "map_of [(''epa'', JDict structured_epa)] ''epa'' = Some (JDict structured_epa)
            \<and> dict_get structured_epa ''breakdown'' = JDict structured_breakdown"
    by (simp add: structured_epa_def dict_get_def dict_get_default_def)
  have h2: "map_of [(''epa'', JDict flat_epa)] ''epa'' = Some (JDict flat_epa)
            \<and> \<not> is_dict (dict_get flat_epa ''breakdown'')"
    by (simp add: flat_epa_def is_dict_def dict_get_def dict_get_default_def)
  have h3: "map_of [(''epa'', JInt 12)] ''epa'' = Some (JInt 12) \<and> float_of (JInt 12) = Some 12"
    by simp
  have h4: "float_of (JStr ''n/a'') = None" by simp
  from h1 rating_fallback_chain [of "[(''epa'', JDict structured_epa)]" structured_epa structured_breakdown]
  have c1: "batch_extract (JDict [(''epa'', JDict structured_epa)])
     = Inr (Some \<lparr> total = 42.5, auto = 10, teleop = 0, endgame = 7.5 \<rparr>)"
    by (simp add: structured_breakdown_def dict_get_def dict_get_default_def)
  from h2 rating_fallback_chain [of "[(''epa'', JDict flat_epa)]" flat_epa]
  have c2: "batch_extract (JDict [(''epa'', JDict flat_epa)])
     = Inr (Some \<lparr> total = 5, auto = 1.5, teleop = 0, endgame = 0 \<rparr>)"
    by (simp add: flat_epa_def dict_get_def dict_get_default_def)
  from h3 rating_fallback_chain [of "[(''epa'', JInt 12)]" _ _ "JInt 12" 12]
  have c3: "batch_extract (JDict [(''epa'', JInt 12)])
     = Inr (Some \<lparr> total = 12, auto = 0, teleop = 0, endgame = 0 \<rparr>)"
    by simp
  from h4 rating_fallback_chain [of _ _ _ "JStr ''n/a''"]
  have c4: "number_or_zero (JStr ''n/a'') = 0" by simp
  from c1 h2 c2 c3 h4 c4 show ?thesis by simp
qed

section \<open>Alliance aggregation\<close>

lemma foldl_add: "foldl (+) a xs = a + sum_list xs" for a :: real
  by (induction xs arbitrary: a) simp_all

lemma py_sum_eq: "py_sum xs = sum_list xs"
  by (simp add: py_sum_def foldl_add)

lemma np_mean_eq: "np_mean xs = sum_list xs / real (length xs)"
  by (simp add: np_mean_def py_sum_eq)

lemma foldl_max: "foldl max a xs = Max (insert a (set xs))" for a :: real
proof (induction xs arbitrary: a)
  case Nil
  show ?case by simp
next
  case (Cons x xs)
  have "Max (insert (max a x) (set xs)) = Max (insert a (insert x (set xs)))"
  proof (cases "set xs = {}")
    case True
    then show ?thesis by (simp add: max.commute)
  next
    case False
    then show ?thesis by (simp add: max.assoc)
  qed
  with Cons show ?case by simp
qed

lemma py_max_eq: "xs \<noteq> [] \<Longrightarrow> py_max xs = Inr (Max (set xs))"
  by (cases xs) (simp_all add: foldl_max)

lemma valid_of_filter: "map Some (valid_of epas) = filter (\<lambda>e. e \<noteq> None) epas"
  by (induction epas) (auto simp: valid_of_def List.map_filter_simps split: option.splits)

lemma valid_of_simps [simp]:
  "valid_of [] = []"
  "valid_of (None # es) = valid_of es"
  "valid_of (Some e # es) = e # valid_of es"
  by (simp_all add: valid_of_def List.map_filter_simps)

lemma alliance_features_empty:
  "valid_of epas = [] \<Longrightarrow>
   alliance_features epas p =
     Inr [(p @ ''_avg_epa'', 0), (p @ ''_avg_auto'', 0), (p @ ''_avg_teleop'', 0),
          (p @ ''_avg_endgame'', 0), (p @ ''_sum_epa'', 0), (p @ ''_max_epa'', 0)]"
  by (simp add: alliance_features_def)

lemma alliance_features_valid:
  "valid_of epas \<noteq> [] \<Longrightarrow>
   alliance_features epas p =
     Inr [(p @ ''_avg_epa'', sum_list (map total (valid_of epas)) / real (length (valid_of epas))),
          (p @ ''_avg_auto'', sum_list (map auto (valid_of epas)) / real (length (valid_of epas))),
          (p @ ''_avg_teleop'', sum_list (map teleop (valid_of epas)) / real (length (valid_of epas))),
          (p @ ''_avg_endgame'', sum_list (map endgame (valid_of epas)) / real (length (valid_of epas))),
          (p @ ''_sum_epa'', sum_list (map total (valid_of epas))),
          (p @ ''_max_epa'', Max (set (map total (valid_of epas))))]"
  by (simp add: alliance_features_def Let_def py_max_eq np_mean_eq py_sum_eq err_bind_def)

lemma entries_numbers:
  assumes "map float_of vs = map Some xs"
  shows "entries mean_entry vs = Inr xs"
    and "entries sum_entry vs = Inr xs"
    and "entries max_entry vs = Inr xs"
  using assms
proof (induction vs arbitrary: xs)
  case Nil
  { case 1 then show ?case by simp }
  { case 2 then show ?case by simp }
  { case 3 then show ?case by simp }
next
  case (Cons v vs)
  { case 1 then show ?case using Cons.IH(1) by (cases v; cases xs) (auto simp: err_bind_def) }
  { case 2 then show ?case using Cons.IH(2) by (cases xs) (auto simp: err_bind_def sum_entry_def) }
  { case 3 then show ?case using Cons.IH(3) by (cases xs) (auto simp: err_bind_def max_entry_def) }
qed

lemma serving_aggregates:
  assumes "map float_of (map field valid) = map Some xs"
  shows "avg_or_zero valid field = Inr (if xs = [] then 0 else sum_list xs / real (length xs))"
    and "sum_or_zero valid field = Inr (sum_list xs)"
    and "max_or_zero valid field = Inr (if xs = [] then 0 else Max (set xs))"
proof -
  have len: "length xs = length valid"
    using arg_cong [OF assms, of length] by simp
  then have e: "(xs = []) = (valid = [])" by auto
  show "avg_or_zero valid field = Inr (if xs = [] then 0 else sum_list xs / real (length xs))"
    using entries_numbers(1) [OF assms] e by (simp add: avg_or_zero_def err_bind_def np_mean_eq)
  show "sum_or_zero valid field = Inr (sum_list xs)"
    using entries_numbers(2) [OF assms] e by (auto simp add: sum_or_zero_def err_bind_def py_sum_eq)
  show "max_or_zero valid field = Inr (if xs = [] then 0 else Max (set xs))"
    using entries_numbers(3) [OF assms] e by (auto simp add: max_or_zero_def err_bind_def py_max_eq)
qed

text \<open>
  C5. The valid subset of the ratings handed to the aggregation is the sublist of the
  present ones. When it is empty, all six fields of the batch summary are 0; otherwise
  the four averages are the arithmetic means of the fields over the valid subset, the
  sum is the sum of the totals and the maximum is the greatest total. The serving
  helpers \<open>avg_or_zero\<close>, \<open>sum_or_zero\<close> and \<open>max_or_zero\<close> compute the same
  on a valid subset whose entries are the numbers \<open>xs\<close>. Numbers are exact here, and
  the integer 0 of the empty case is not told apart from 0.0. The statement holds for
  a list of any length, so for at most three ratings.
\<close>

theorem alliance_aggregation:
  "map Some (valid_of epas) = filter (\<lambda>e. e \<noteq> None) epas
   \<and> (valid_of epas = [] \<longrightarrow>
        alliance_features epas p =
          Inr [(p @ ''_avg_epa'', 0), (p @ ''_avg_auto'', 0), (p @ ''_avg_teleop'', 0),
               (p @ ''_avg_endgame'', 0), (p @ ''_sum_epa'', 0), (p @ ''_max_epa'', 0)])
   \<and> (valid_of epas \<noteq> [] \<longrightarrow>
        alliance_features epas p =
          Inr [(p @ ''_avg_epa'', sum_list (map total (valid_of epas)) / real (length (valid_of epas))),
               (p @ ''_avg_auto'', sum_list (map auto (valid_of epas)) / real (length (valid_of epas))),
               (p @ ''_avg_teleop'', sum_list (map teleop (valid_of epas)) / real (length (valid_of epas))),
               (p @ ''_avg_endgame'', sum_list (map endgame (valid_of epas)) / real (length (valid_of epas))),
               (p @ ''_sum_epa'', sum_list (map total (valid_of epas))),
               (p @ ''_max_epa'', Max (set (map total (valid_of epas))))])
   \<and> (map float_of (map field valid) = map Some xs \<longrightarrow>
        avg_or_zero valid field = Inr (if xs = [] then 0 else sum_list xs / real (length xs))
        \<and> sum_or_zero valid field = Inr (sum_list xs)
        \<and> max_or_zero valid field = Inr (if xs = [] then 0 else Max (set xs)))"
  using valid_of_filter [of epas] alliance_features_empty [of epas p]
    alliance_features_valid [of epas p] serving_aggregates [of field valid xs]
  by blast

theorem alliance_aggregation_witness:
  "valid_of [None, None, None :: team_rating option] = []
   \<and> alliance_features [None, None, None] ''blue'' =
       Inr [(''blue_avg_epa'', 0), (''blue_avg_auto'', 0), (''blue_avg_teleop'', 0),
            (''blue_avg_endgame'', 0), (''blue_sum_epa'', 0), (''blue_max_epa'', 0)]
   \<and> valid_of [Some (rated 10), Some (rated 20), Some (rated 30)] \<noteq> []
   \<and> alliance_features [Some (rated 10), Some (rated 20), Some (rated 30)] ''red'' =
       Inr [(''red_avg_epa'', 20), (''red_avg_auto'', 1), (''red_avg_teleop'', 2),
            (''red_avg_endgame'', 3), (''red_sum_epa'', 60), (''red_max_epa'', 30)]
   \<and> map float_of (map c_total [cached (JInt 10), cached (JFloat 20), cached (JInt 30)])
       = map Some [10, 20, 30]
   \<and> avg_or_zero [cached (JInt 10), cached (JFloat 20), cached (JInt 30)] c_total = Inr 20
   \<and> sum_or_zero [cached (JInt 10), cached (JFloat 20), cached (JInt 30)] c_total = Inr 60
   \<and> max_or_zero [cached (JInt 10), cached (JFloat 20), cached (JInt 30)] c_total = Inr 30"
proof -
  have e: "valid_of [None, None, None :: team_rating option] = []" by simp
  have n: "valid_of [Some (rated 10), Some (rated 20), Some (rated 30)] \<noteq> []" by simp
  have s: "map float_of (map c_total [cached (JInt 10), cached (JFloat 20), cached (JInt 30)])
       = map Some [10, 20, 30]"
    by (simp add: cached_def)
  from e alliance_aggregation [of "[None, None, None]" "''blue''"]
  have c1: "alliance_features [None, None, None] ''blue'' =
       Inr [(''blue_avg_epa'', 0), (''blue_avg_auto'', 0), (''blue_avg_teleop'', 0),
            (''blue_avg_endgame'', 0), (''blue_sum_epa'', 0), (''blue_max_epa'', 0)]"
    by simp
  from n alliance_aggregation [of "[Some (rated 10), Some (rated 20), Some (rated 30)]" "''red''"]
  have c2: "alliance_features [Some (rated 10), Some (rated 20), Some (rated 30)] ''red'' =
       Inr [(''red_avg_epa'', 20), (''red_avg_auto'', 1), (''red_avg_teleop'', 2),
            (''red_avg_endgame'', 3), (''red_sum_epa'', 60), (''red_max_epa'', 30)]"
    by (simp add: rated_def)
  from s alliance_aggregation [of _ _ c_total "[cached (JInt 10), cached (JFloat 20), cached (JInt 30)]" "[10, 20, 30]"]
  have c3: "avg_or_zero [cached (JInt 10), cached (JFloat 20), cached (JInt 30)] c_total = Inr 20
   \<and> sum_or_zero [cached (JInt 10), cached (JFloat 20), cached (JInt 30)] c_total = Inr 60
   \<and> max_or_zero [cached (JInt 10), cached (JFloat 20), cached (JInt 30)] c_total = Inr 30"
    by simp
  from e c1 n c2 s c3 show ?thesis by simp
qed

section \<open>The rating cache\<close>

lemma get_team_epa_hit:
  "epa_cache st (t, e) = Some v \<Longrightarrow> get_team_epa w t e st = (Inr v, st)"
  by (simp add: get_team_epa_def)

lemma get_team_epa_outbound:
  "outbound (snd (get_team_epa w t e st)) =
     (if epa_cache st (t, e) = None then outbound st @ [(t, e)] else outbound st)"
  by (auto simp: get_team_epa_def Let_def split: option.splits sum.splits)

lemma get_team_epa_resolves:
  "get_team_epa w t e st = (Inr v, st1) \<Longrightarrow> epa_cache st1 (t, e) = Some v"
  by (auto simp: get_team_epa_def Let_def split: option.splits sum.splits)

lemma get_team_epa_preserves:
  "epa_cache st k = Some v \<Longrightarrow> epa_cache (snd (get_team_epa w t e st)) k = Some v"
  by (cases "k = (t, e)") (auto simp: get_team_epa_def Let_def split: option.splits sum.splits)

lemma batch_lookups_preserves:
  "epa_cache st k = Some v \<Longrightarrow> epa_cache (batch_lookups w ks st) k = Some v"
  unfolding batch_lookups_def
  by (induction ks arbitrary: st) (simp_all add: get_team_epa_preserves)

lemma batch_lookups_no_refetch:
  "epa_cache st k = Some v \<Longrightarrow>
   count_list (outbound (batch_lookups w ks st)) k = count_list (outbound st) k"
  unfolding batch_lookups_def
proof (induction ks arbitrary: st)
  case Nil
  show ?case by simp
next
  case (Cons a ks)
  have "epa_cache (snd (get_team_epa w (fst a) (snd a) st)) k = Some v"
    using Cons.prems by (rule get_team_epa_preserves)
  from Cons.IH [OF this] have
    "count_list (outbound (fold (\<lambda>k s. snd (get_team_epa w (fst k) (snd k) s)) ks
        (snd (get_team_epa w (fst a) (snd a) st)))) k
     = count_list (outbound (snd (get_team_epa w (fst a) (snd a) st))) k" .
  moreover have "count_list (outbound (snd (get_team_epa w (fst a) (snd a) st))) k
     = count_list (outbound st) k"
    using Cons.prems by (cases "k = a") (auto simp: get_team_epa_outbound)
  ultimately show ?case by simp
qed

lemma batch_later_lookup:
  assumes "get_team_epa w t e st = (Inr v, st1)"
  shows "get_team_epa w t e (batch_lookups w ks st1) = (Inr v, batch_lookups w ks st1)"
    and "count_list (outbound (batch_lookups w ks st1)) (t, e) = count_list (outbound st1) (t, e)"
proof -
  have r: "epa_cache st1 (t, e) = Some v"
    using assms by (rule get_team_epa_resolves)
  show "get_team_epa w t e (batch_lookups w ks st1) = (Inr v, batch_lookups w ks st1)"
    using batch_lookups_preserves [OF r] by (rule get_team_epa_hit)
  show "count_list (outbound (batch_lookups w ks st1)) (t, e) = count_list (outbound st1) (t, e)"
    using r by (rule batch_lookups_no_refetch)
qed

lemma serve_hit:
  "cache st (t, e) = Some (v, ts) \<Longrightarrow> clock w (ticks st) - ts < EPA_CACHE_TTL \<Longrightarrow>
   get_team_epa_cached w t e st = (Inr v, st \<lparr> ticks := Suc (ticks st) \<rparr>)"
  by (simp add: get_team_epa_cached_def Let_def)

lemma fetch_and_store_fetched:
  "fetched (snd (fetch_and_store w t e now st)) = fetched st @ [(t, e)]"
  by (auto simp: fetch_and_store_def Let_def split: http_result.splits sum.splits)

lemma serve_expired:
  "cache st (t, e) = Some (v, ts) \<Longrightarrow> EPA_CACHE_TTL \<le> clock w (ticks st) - ts \<Longrightarrow>
   fetched (snd (get_team_epa_cached w t e st)) = fetched st @ [(t, e)]"
  by (simp add: get_team_epa_cached_def Let_def fetch_and_store_fetched)

lemma serve_miss:
  "cache st (t, e) = None \<Longrightarrow>
   fetched (snd (get_team_epa_cached w t e st)) = fetched st @ [(t, e)]"
  by (simp add: get_team_epa_cached_def Let_def fetch_and_store_fetched)

lemma serve_miss_stores:
  "cache st (t, e) = None \<Longrightarrow> get_team_epa_cached w t e st = (Inr v, st1) \<Longrightarrow>
   cache st1 (t, e) = Some (v, clock w (ticks st))"
  by (auto simp: get_team_epa_cached_def Let_def fetch_and_store_def
      split: http_result.splits sum.splits if_splits)

lemma serve_other_key:
  "k \<noteq> (t, e) \<Longrightarrow> cache (snd (get_team_epa_cached w t e st)) k = cache st k"
  by (auto simp: get_team_epa_cached_def Let_def fetch_and_store_def
      split: option.splits http_result.splits sum.splits if_splits)

lemma fetch_and_store_answer:
  "fst (fetch_and_store w t e now st) = answer_of (net w (length (fetched st)) t e)"
  by (auto simp: fetch_and_store_def answer_of_def Let_def split: http_result.splits sum.splits)

lemma fetch_and_store_stores:
  "fetch_and_store w t e now st = (Inr v, st1) \<Longrightarrow>
   cache st1 (t, e) = Some (v, now) \<and> fetched st1 = fetched st @ [(t, e)] \<and> ticks st1 = ticks st"
  by (auto simp: fetch_and_store_def Let_def split: http_result.splits sum.splits if_splits)

lemma fetch_and_store_raises:
  "fetch_and_store w t e now st = (Inl err, st1) \<Longrightarrow>
   cache st1 = cache st \<and> fetched st1 = fetched st @ [(t, e)]"
  by (auto simp: fetch_and_store_def Let_def split: http_result.splits sum.splits if_splits)

lemma serve_refetch_miss:
  "cache st (t, e) = None \<Longrightarrow>
   get_team_epa_cached w t e st
     = fetch_and_store w t e (clock w (ticks st)) (st \<lparr> ticks := Suc (ticks st) \<rparr>)"
  by (simp add: get_team_epa_cached_def Let_def)

lemma serve_refetch_expired:
  "cache st (t, e) = Some (v, ts) \<Longrightarrow> EPA_CACHE_TTL \<le> clock w (ticks st) - ts \<Longrightarrow>
   get_team_epa_cached w t e st
     = fetch_and_store w t e (clock w (ticks st)) (st \<lparr> ticks := Suc (ticks st) \<rparr>)"
  by (simp add: get_team_epa_cached_def Let_def)

lemma serve_expired_refreshes:
  assumes "cache st (t, e) = Some (v0, ts)" "EPA_CACHE_TTL \<le> clock w (ticks st) - ts"
  shows "fst (get_team_epa_cached w t e st) = answer_of (net w (length (fetched st)) t e)"
    and "get_team_epa_cached w t e st = (Inr v, st1) \<Longrightarrow>
         cache st1 (t, e) = Some (v, clock w (ticks st)) \<and> fetched st1 = fetched st @ [(t, e)]
         \<and> ticks st1 = Suc (ticks st)"
proof -
  note r = serve_refetch_expired [OF assms]
  show "fst (get_team_epa_cached w t e st) = answer_of (net w (length (fetched st)) t e)"
    by (simp add: r fetch_and_store_answer)
  show "cache st1 (t, e) = Some (v, clock w (ticks st)) \<and> fetched st1 = fetched st @ [(t, e)]
         \<and> ticks st1 = Suc (ticks st)"
    if "get_team_epa_cached w t e st = (Inr v, st1)"
    using that fetch_and_store_stores [of w t e "clock w (ticks st)" "st \<lparr> ticks := Suc (ticks st) \<rparr>" v st1]
    by (simp add: r)
qed

lemma serve_miss_answer:
  "cache st (t, e) = None \<Longrightarrow>
   fst (get_team_epa_cached w t e st) = answer_of (net w (length (fetched st)) t e)"
  by (simp add: serve_refetch_miss fetch_and_store_answer)

text \<open>
  C6. Batch mode: once a lookup of a key has returned, a rating or absent, a lookup of
  that key after any further lookups returns the same value and leaves the state as it
  is, so the log of outbound reads holds no further read for the key; a lookup of a
  key not in the cache makes exactly one read. Serving mode: a lookup of a key not in
  the cache makes one read and, when it returns, stores the value, a rating or absent,
  with the time of the lookup; a lookup less than \<open>EPA_CACHE_TTL\<close> = 600 seconds
  after the stored time returns the stored value and makes no read; a lookup 600
  seconds or more after it makes a read again; lookups of other keys leave the entry
  alone. A lookup that reads, on a miss or on an expired entry, returns what that read
  amounts to, and on an expired entry it replaces the entry by the new value with the
  time of this lookup, so that the next window starts there.
\<close>

theorem rating_cache_fetches_once:
  "(get_team_epa w t e st = (Inr v, st1) \<longrightarrow>
      get_team_epa w t e (batch_lookups w ks st1) = (Inr v, batch_lookups w ks st1)
      \<and> count_list (outbound (batch_lookups w ks st1)) (t, e) = count_list (outbound st1) (t, e))
   \<and> (epa_cache st (t, e) = None \<longrightarrow>
      outbound (snd (get_team_epa w t e st)) = outbound st @ [(t, e)])
   \<and> (cache ss (t, e) = None \<and> get_team_epa_cached w t e ss = (Inr cv, ss1) \<longrightarrow>
      cache ss1 (t, e) = Some (cv, clock w (ticks ss)) \<and> fetched ss1 = fetched ss @ [(t, e)])
   \<and> (cache ss (t, e) = Some (cv, ts) \<and> clock w (ticks ss) - ts < EPA_CACHE_TTL \<longrightarrow>
      get_team_epa_cached w t e ss = (Inr cv, ss \<lparr> ticks := Suc (ticks ss) \<rparr>))
   \<and> (cache ss (t, e) = Some (cv, ts) \<and> EPA_CACHE_TTL \<le> clock w (ticks ss) - ts \<longrightarrow>
      fetched (snd (get_team_epa_cached w t e ss)) = fetched ss @ [(t, e)])
   \<and> (k \<noteq> (t, e) \<longrightarrow> cache (snd (get_team_epa_cached w t e ss)) k = cache ss k)
   \<and> EPA_CACHE_TTL = 600
   \<and> (cache ss (t, e) = Some (cv, ts) \<and> EPA_CACHE_TTL \<le> clock w (ticks ss) - ts
        \<and> get_team_epa_cached w t e ss = (Inr cv', ss1) \<longrightarrow>
      cache ss1 (t, e) = Some (cv', clock w (ticks ss)) \<and> fetched ss1 = fetched ss @ [(t, e)]
      \<and> ticks ss1 = Suc (ticks ss))
   \<and> (cache ss (t, e) = Some (cv, ts) \<and> EPA_CACHE_TTL \<le> clock w (ticks ss) - ts \<longrightarrow>
      fst (get_team_epa_cached w t e ss) = answer_of (net w (length (fetched ss)) t e))
   \<and> (cache ss (t, e) = None \<longrightarrow>
      fst (get_team_epa_cached w t e ss) = answer_of (net w (length (fetched ss)) t e))"
proof -
  have b1: "get_team_epa w t e st = (Inr v, st1) \<longrightarrow>
      get_team_epa w t e (batch_lookups w ks st1) = (Inr v, batch_lookups w ks st1)
      \<and> count_list (outbound (batch_lookups w ks st1)) (t, e) = count_list (outbound st1) (t, e)"
    using batch_later_lookup [of w t e st v st1 ks] by blast
  have b2: "epa_cache st (t, e) = None \<longrightarrow>
      outbound (snd (get_team_epa w t e st)) = outbound st @ [(t, e)]"
    by (simp add: get_team_epa_outbound)
  have s1: "cache ss (t, e) = None \<and> get_team_epa_cached w t e ss = (Inr cv, ss1) \<longrightarrow>
      cache ss1 (t, e) = Some (cv, clock w (ticks ss)) \<and> fetched ss1 = fetched ss @ [(t, e)]"
    using serve_miss_stores [of ss t e w cv ss1] serve_miss [of ss t e w] by auto
  have s2: "cache ss (t, e) = Some (cv, ts) \<and> clock w (ticks ss) - ts < EPA_CACHE_TTL \<longrightarrow>
      get_team_epa_cached w t e ss = (Inr cv, ss \<lparr> ticks := Suc (ticks ss) \<rparr>)"
    using serve_hit [of ss t e cv ts w] by blast
  have s3: "cache ss (t, e) = Some (cv, ts) \<and> EPA_CACHE_TTL \<le> clock w (ticks ss) - ts \<longrightarrow>
      fetched (snd (get_team_epa_cached w t e ss)) = fetched ss @ [(t, e)]"
    using serve_expired [of ss t e cv ts w] by blast
  have s4: "k \<noteq> (t, e) \<longrightarrow> cache (snd (get_team_epa_cached w t e ss)) k = cache ss k"
    using serve_other_key [of k t e w ss] by blast
  have s5: "cache ss (t, e) = Some (cv, ts) \<and> EPA_CACHE_TTL \<le> clock w (ticks ss) - ts
        \<and> get_team_epa_cached w t e ss = (Inr cv', ss1) \<longrightarrow>
      cache ss1 (t, e) = Some (cv', clock w (ticks ss)) \<and> fetched ss1 = fetched ss @ [(t, e)]
      \<and> ticks ss1 = Suc (ticks ss)"
    using serve_expired_refreshes(2) [of ss t e cv ts w cv' ss1] by blast
  have s6: "cache ss (t, e) = Some (cv, ts) \<and> EPA_CACHE_TTL \<le> clock w (ticks ss) - ts \<longrightarrow>
      fst (get_team_epa_cached w t e ss) = answer_of (net w (length (fetched ss)) t e)"
    using serve_expired_refreshes(1) [of ss t e cv ts w] by blast
  have s7: "cache ss (t, e) = None \<longrightarrow>
      fst (get_team_epa_cached w t e ss) = answer_of (net w (length (fetched ss)) t e)"
    using serve_miss_answer [of ss t e w] by blast
  have ttl: "EPA_CACHE_TTL = 600" by (simp add: EPA_CACHE_TTL_def)
  from b1 b2 s1 s2 s3 s4 ttl s5 s6 s7 show ?thesis by (intro conjI)
qed

lemmas cache_eval =
  absent_world_def ticking_world_def batch_init_def serve_init_def get_team_epa_def
  get_team_epa_cached_def fetch_and_store_def batch_extract_def Let_def
  batch_after_first_def serve_after_first_def

theorem rating_cache_fetches_once_witness:
  "get_team_epa absent_world 254 ''2024casj'' batch_init = (Inr None, batch_after_first)
   \<and> fst (get_team_epa absent_world 254 ''2024casj''
        (batch_lookups absent_world [(1678, ''2024casj''), (254, ''2024casj'')] batch_after_first)) = Inr None
   \<and> count_list (outbound (batch_lookups absent_world [(1678, ''2024casj''), (254, ''2024casj'')] batch_after_first))
        (254, ''2024casj'') = 1
   \<and> get_team_epa_cached absent_world 254 ''2024casj'' serve_init = (Inr None, serve_after_first)
   \<and> fetched serve_after_first = [(254, ''2024casj'')]
   \<and> clock absent_world (ticks serve_after_first) - 0 < EPA_CACHE_TTL
   \<and> get_team_epa_cached absent_world 254 ''2024casj'' serve_after_first = (Inr None, serve_after_first \<lparr> ticks := 2 \<rparr>)
   \<and> EPA_CACHE_TTL \<le> clock absent_world (ticks (serve_after_first \<lparr> ticks := 2 \<rparr>)) - 0
   \<and> fetched (snd (get_team_epa_cached absent_world 254 ''2024casj'' (serve_after_first \<lparr> ticks := 2 \<rparr>)))
        = [(254, ''2024casj''), (254, ''2024casj'')]
   \<and> get_team_epa_cached recovering_world 254 ''2024casj'' (serve_after_first \<lparr> ticks := 2 \<rparr>)
        = (Inr (Some clean_cached), serve_after_third)
   \<and> answer_of (net recovering_world (length (fetched (serve_after_first \<lparr> ticks := 2 \<rparr>)))
          254 ''2024casj'') = Inr (Some clean_cached)
   \<and> cache serve_after_third (254, ''2024casj'') = Some (Some clean_cached, 700)
   \<and> fetched serve_after_third = [(254, ''2024casj''), (254, ''2024casj'')]
   \<and> clock recovering_world (ticks serve_after_third) - 700 < EPA_CACHE_TTL
   \<and> get_team_epa_cached recovering_world 254 ''2024casj'' serve_after_third
        = (Inr (Some clean_cached), serve_after_third \<lparr> ticks := 4 \<rparr>)"
proof -
  have h1: "get_team_epa absent_world 254 ''2024casj'' batch_init = (Inr None, batch_after_first)"
    by (simp add: cache_eval)
  have h2: "cache serve_init (254, ''2024casj'') = None
      \<and> get_team_epa_cached absent_world 254 ''2024casj'' serve_init = (Inr None, serve_after_first)"
    by (simp add: cache_eval)
  have h3: "cache serve_after_first (254, ''2024casj'') = Some (None, 0)
      \<and> clock absent_world (ticks serve_after_first) - 0 < EPA_CACHE_TTL"
    by (simp add: cache_eval EPA_CACHE_TTL_def)
  have h4: "cache (serve_after_first \<lparr> ticks := 2 \<rparr>) (254, ''2024casj'') = Some (None, 0)
      \<and> EPA_CACHE_TTL \<le> clock absent_world (ticks (serve_after_first \<lparr> ticks := 2 \<rparr>)) - 0"
    by (simp add: cache_eval EPA_CACHE_TTL_def)
  from h1 rating_cache_fetches_once [of absent_world 254 "''2024casj''" batch_init None batch_after_first
      "[(1678, ''2024casj''), (254, ''2024casj'')]"]
  have c1: "fst (get_team_epa absent_world 254 ''2024casj''
        (batch_lookups absent_world [(1678, ''2024casj''), (254, ''2024casj'')] batch_after_first)) = Inr None
   \<and> count_list (outbound (batch_lookups absent_world [(1678, ''2024casj''), (254, ''2024casj'')] batch_after_first))
        (254, ''2024casj'') = 1"
    by (simp add: batch_after_first_def)
  from h2 rating_cache_fetches_once [of absent_world 254 "''2024casj''" _ _ _ _ serve_init None serve_after_first]
  have c2: "fetched serve_after_first = [(254, ''2024casj'')]"
    by (simp add: serve_init_def)
  from h3 rating_cache_fetches_once [of absent_world 254 "''2024casj''" _ _ _ _ serve_after_first None _ 0]
  have c3: "get_team_epa_cached absent_world 254 ''2024casj'' serve_after_first = (Inr None, serve_after_first \<lparr> ticks := 2 \<rparr>)"
    by (simp add: serve_after_first_def)
  from h4 rating_cache_fetches_once [of absent_world 254 "''2024casj''" _ _ _ _ "serve_after_first \<lparr> ticks := 2 \<rparr>" None _ 0]
  have c4: "fetched (snd (get_team_epa_cached absent_world 254 ''2024casj'' (serve_after_first \<lparr> ticks := 2 \<rparr>)))
        = [(254, ''2024casj''), (254, ''2024casj'')]"
    by (simp add: serve_after_first_def)
  have h5: "cache (serve_after_first \<lparr> ticks := 2 \<rparr>) (254, ''2024casj'') = Some (None, 0)
      \<and> EPA_CACHE_TTL
          \<le> clock recovering_world (ticks (serve_after_first \<lparr> ticks := 2 \<rparr>)) - 0
      \<and> get_team_epa_cached recovering_world 254 ''2024casj''
            (serve_after_first \<lparr> ticks := 2 \<rparr>)
          = (Inr (Some clean_cached), serve_after_third)"
    by (simp add: recovering_world_def serve_after_first_def serve_after_third_def
        get_team_epa_cached_def fetch_and_store_def Let_def EPA_CACHE_TTL_def serve_extract_def
        category_mean_def clean_payload_def clean_cached_def err_bind_def dict_get_default_def)
  note g5 = rating_cache_fetches_once [where w = recovering_world and t = 254
      and e = "''2024casj''" and ss = "serve_after_first \<lparr> ticks := 2 \<rparr>" and cv = None
      and ts = 0 and cv' = "Some clean_cached" and ?ss1.0 = serve_after_third]
  from h5 g5
  have c5: "cache serve_after_third (254, ''2024casj'') = Some (Some clean_cached, 700)
      \<and> fetched serve_after_third = [(254, ''2024casj''), (254, ''2024casj'')]"
    by (simp add: recovering_world_def serve_after_first_def)
  from h5 g5
  have c6: "answer_of (net recovering_world
          (length (fetched (serve_after_first \<lparr> ticks := 2 \<rparr>))) 254 ''2024casj'')
        = Inr (Some clean_cached)"
    by simp
  from c5 have h6: "cache serve_after_third (254, ''2024casj'') = Some (Some clean_cached, 700)
      \<and> clock recovering_world (ticks serve_after_third) - 700 < EPA_CACHE_TTL"
    by (simp add: recovering_world_def serve_after_third_def EPA_CACHE_TTL_def)
  from h6 rating_cache_fetches_once [where w = recovering_world and t = 254
      and e = "''2024casj''" and ss = serve_after_third and cv = "Some clean_cached"
      and ts = 700]
  have c7: "get_team_epa_cached recovering_world 254 ''2024casj'' serve_after_third
        = (Inr (Some clean_cached), serve_after_third \<lparr> ticks := 4 \<rparr>)"
    by (simp add: serve_after_third_def)
  from h1 c1 h2 c2 h3 c3 h4 c4 h5 c6 c5 h6 c7 show ?thesis by simp
qed

section \<open>Feature vectors\<close>

lemma alliance_features_summary:
  "valid_of epas \<noteq> [] \<Longrightarrow> alliance_features epas p = Inr (summary_row p (valid_of epas))"
  by (simp add: alliance_features_valid summary_row_def)

lemma training_row_gate:
  "length (valid_of r) < 2 \<or> length (valid_of b) < 2 \<Longrightarrow> training_row m ev r b = Inr None"
  by (auto simp: training_row_def Let_def)

lemma training_row_tie:
  "score (red m) = score (blue m) \<Longrightarrow> training_row m ev r b = Inr None"
proof (cases "length (valid_of r) < 2 \<or> length (valid_of b) < 2")
  case True
  then show ?thesis by (rule training_row_gate)
next
  case False
  then have ne: "valid_of r \<noteq> []" "valid_of b \<noteq> []" by auto
  assume "score (red m) = score (blue m)"
  with False show ?thesis
    by (simp add: training_row_def Let_def alliance_features_summary [OF ne(1)]
        alliance_features_summary [OF ne(2)] err_bind_def item_def summary_row_def)
qed

lemma training_row_accept:
  assumes "2 \<le> length (valid_of r)" "2 \<le> length (valid_of b)" "score (red m) \<noteq> score (blue m)"
  shows "training_row m ev r b =
     Inr (Some (summary_row ''red'' (valid_of r) @ summary_row ''blue'' (valid_of b) @
       [(''comp_level'', of_int (comp_encoded (comp_level m))),
        (''event_week'', of_int (event_week_of ev)),
        (''epa_diff'', sum_list (map total (valid_of r)) - sum_list (map total (valid_of b))),
        (''avg_epa_diff'', sum_list (map total (valid_of r)) / real (length (valid_of r))
            - sum_list (map total (valid_of b)) / real (length (valid_of b))),
        (''winner'', if score (red m) > score (blue m) then 1 else 0),
        (''red_score'', of_int (score (red m))),
        (''blue_score'', of_int (score (blue m))),
        (''score_margin'', of_int (score (red m) - score (blue m)))]))"
proof -
  from assms have ne: "valid_of r \<noteq> []" "valid_of b \<noteq> []" by auto
  from assms show ?thesis
    by (simp add: training_row_def Let_def alliance_features_summary [OF ne(1)]
        alliance_features_summary [OF ne(2)] err_bind_def item_def summary_row_def not_less)
qed

lemma training_row_Some:
  assumes "training_row m ev r b = Inr (Some row)"
  shows "2 \<le> length (valid_of r)" "2 \<le> length (valid_of b)" "score (red m) \<noteq> score (blue m)"
  using assms training_row_gate [of r b m ev] training_row_tie [of m ev r b]
  by (auto simp: not_less [symmetric])

lemma training_row_columns:
  assumes "training_row m ev r b = Inr (Some row)"
  shows "map fst row = FEATURE_COLS @ [''winner'', ''red_score'', ''blue_score'', ''score_margin'']"
  using assms training_row_accept [OF training_row_Some [OF assms]]
  by (auto simp: summary_row_def FEATURE_COLS_def)

lemma training_row_returns: "\<exists>res. training_row m ev r b = Inr res"
proof (cases "2 \<le> length (valid_of r) \<and> 2 \<le> length (valid_of b) \<and> score (red m) \<noteq> score (blue m)")
  case True
  then show ?thesis using training_row_accept [of r b m ev] by simp
next
  case False
  then show ?thesis
    using training_row_gate [of r b m ev] training_row_tie [of m ev r b] by (auto simp: not_le)
qed

lemma features_dict_columns:
  "features_dict rv bv c wk = Inr fs \<Longrightarrow> map fst fs = FEATURE_COLS"
  unfolding features_dict_def err_bind_def FEATURE_COLS_def
  by (auto split: sum.splits)

lemma select_cols_sub:
  "distinct (map fst fs) \<Longrightarrow> set ps \<subseteq> set fs \<Longrightarrow> select_cols fs (map fst ps) = Inr (map snd ps)"
  by (induction ps) (auto simp: err_bind_def item_def)

lemma select_cols_all:
  "distinct (map fst fs) \<Longrightarrow> select_cols fs (map fst fs) = Inr (map snd fs)"
  by (rule select_cols_sub) simp_all

lemma select_cols_map_of:
  "map_of fs' = map_of fs \<Longrightarrow> select_cols fs' cols = select_cols fs cols"
  by (induction cols) (simp_all add: item_def)

lemma select_cols_reordered:
  "distinct (map fst fs) \<Longrightarrow> distinct (map fst fs') \<Longrightarrow> set fs' = set fs \<Longrightarrow>
   select_cols fs' cols = select_cols fs cols"
  by (rule select_cols_map_of) (simp add: map_of_inject_set)

lemma distinct_FEATURE_COLS: "distinct FEATURE_COLS"
  by (simp add: FEATURE_COLS_def)

lemma inference_vector_None:
  "(inference_vector cols r b c wk = Inr None) = (valid_of r = [] \<or> valid_of b = [])"
  by (auto simp: inference_vector_def Let_def err_bind_def split: sum.splits)

lemma numeric_fields:
  assumes "list_all numeric_rating valid"
  shows "\<exists>xs. map float_of (map c_total valid) = map Some xs"
    and "\<exists>xs. map float_of (map c_auto valid) = map Some xs"
    and "\<exists>xs. map float_of (map c_teleop valid) = map Some xs"
    and "\<exists>xs. map float_of (map c_endgame valid) = map Some xs"
proof -
  have g: "\<exists>xs. map float_of (map f valid) = map Some xs"
    if "\<And>r. numeric_rating r \<Longrightarrow> float_of (f r) \<noteq> None" for f
    using assms that
  proof (induction valid)
    case Nil
    show ?case by simp
  next
    case (Cons r rs)
    then obtain xs where xs: "map float_of (map f rs) = map Some xs" by auto
    from Cons obtain x where "float_of (f r) = Some x" by auto
    with xs have "map float_of (map f (r # rs)) = map Some (x # xs)" by simp
    then show ?case by blast
  qed
  show "\<exists>xs. map float_of (map c_total valid) = map Some xs"
    by (rule g) (simp add: numeric_rating_def)
  show "\<exists>xs. map float_of (map c_auto valid) = map Some xs"
    by (rule g) (simp add: numeric_rating_def)
  show "\<exists>xs. map float_of (map c_teleop valid) = map Some xs"
    by (rule g) (simp add: numeric_rating_def)
  show "\<exists>xs. map float_of (map c_endgame valid) = map Some xs"
    by (rule g) (simp add: numeric_rating_def)
qed

lemma numeric_aggregates:
  assumes "list_all numeric_rating valid"
  shows "\<exists>x. avg_or_zero valid c_total = Inr x"
    and "\<exists>x. avg_or_zero valid c_auto = Inr x"
    and "\<exists>x. avg_or_zero valid c_teleop = Inr x"
    and "\<exists>x. avg_or_zero valid c_endgame = Inr x"
    and "\<exists>x. sum_or_zero valid c_total = Inr x"
    and "\<exists>x. max_or_zero valid c_total = Inr x"
  using numeric_fields [OF assms] serving_aggregates by metis+

lemma numeric_features_dict:
  assumes "list_all numeric_rating rv" "list_all numeric_rating bv"
  shows "\<exists>fs. features_dict rv bv c wk = Inr fs"
proof -
  from numeric_aggregates [OF assms(1)] obtain r1 r2 r3 r4 r5 r6 where
    r: "avg_or_zero rv c_total = Inr r1" "avg_or_zero rv c_auto = Inr r2"
       "avg_or_zero rv c_teleop = Inr r3" "avg_or_zero rv c_endgame = Inr r4"
       "sum_or_zero rv c_total = Inr r5" "max_or_zero rv c_total = Inr r6"
    by blast
  from numeric_aggregates [OF assms(2)] obtain b1 b2 b3 b4 b5 b6 where
    b: "avg_or_zero bv c_total = Inr b1" "avg_or_zero bv c_auto = Inr b2"
       "avg_or_zero bv c_teleop = Inr b3" "avg_or_zero bv c_endgame = Inr b4"
       "sum_or_zero bv c_total = Inr b5" "max_or_zero bv c_total = Inr b6"
    by blast
  show ?thesis
    by (simp add: features_dict_def err_bind_def r b)
qed

lemma inference_vector_canonical:
  assumes "inference_vector FEATURE_COLS r b c wk = Inr (Some x)"
  shows "\<exists>fs. features_dict (valid_of r) (valid_of b) c wk = Inr fs
          \<and> map fst fs = FEATURE_COLS \<and> x = map snd fs"
proof -
  from assms obtain fs where
    fs: "features_dict (valid_of r) (valid_of b) c wk = Inr fs"
    and sel: "select_cols fs FEATURE_COLS = Inr x"
    by (auto simp: inference_vector_def Let_def err_bind_def split: if_splits sum.splits)
  have cols: "map fst fs = FEATURE_COLS" using fs by (rule features_dict_columns)
  then have "distinct (map fst fs)" by (simp add: distinct_FEATURE_COLS)
  from select_cols_all [OF this] sel cols have "x = map snd fs" by simp
  with fs cols show ?thesis by blast
qed

lemma numeric_inference_vector:
  assumes "valid_of r \<noteq> []" "valid_of b \<noteq> []"
    and "list_all numeric_rating (valid_of r)" "list_all numeric_rating (valid_of b)"
  shows "\<exists>x. inference_vector FEATURE_COLS r b c wk = Inr (Some x) \<and> length x = 16"
proof -
  from numeric_features_dict [OF assms(3,4)] obtain fs where
    fs: "features_dict (valid_of r) (valid_of b) c wk = Inr fs" by blast
  have cols: "map fst fs = FEATURE_COLS" using fs by (rule features_dict_columns)
  then have "distinct (map fst fs)" by (simp add: distinct_FEATURE_COLS)
  from select_cols_all [OF this] cols have sel: "select_cols fs FEATURE_COLS = Inr (map snd fs)"
    by simp
  have "length (map snd fs) = length (map fst fs)" by simp
  then have "length (map snd fs) = length FEATURE_COLS" by (simp only: cols)
  then have "length (map snd fs) = 16" by (simp add: FEATURE_COLS_def)
  with assms(1,2) fs sel show ?thesis
    by (simp add: inference_vector_def Let_def err_bind_def)
qed

lemma get_team_epas_length:
  "get_team_epas w ts ek st = (Inr rs, st1) \<Longrightarrow> length rs = length ts"
  by (induction ts arbitrary: st rs st1) (auto split: prod.splits sum.splits)

lemma build_feature_vector_Some:
  assumes "fst (build_feature_vector py_int w m ev st) = Inr (Some row)"
  shows "\<exists>red_epas st1 blue_epas st2.
      get_team_epas w (take 3 (extract_team_numbers py_int (red m))) (key ev) st = (Inr red_epas, st1)
      \<and> get_team_epas w (take 3 (extract_team_numbers py_int (blue m))) (key ev) st1 = (Inr blue_epas, st2)
      \<and> length red_epas = 3 \<and> length blue_epas = 3
      \<and> training_row m ev red_epas blue_epas = Inr (Some row)"
proof -
  let ?rt = "extract_team_numbers py_int (red m)" and ?bt = "extract_team_numbers py_int (blue m)"
  from assms have len: "3 \<le> length ?rt" "3 \<le> length ?bt"
    by (auto simp: build_feature_vector_def Let_def split: if_splits)
  from assms len obtain red_epas st1 where
    r: "get_team_epas w (take 3 ?rt) (key ev) st = (Inr red_epas, st1)"
    by (auto simp: build_feature_vector_def Let_def split: if_splits prod.splits sum.splits)
  from assms len r obtain blue_epas st2 where
    b: "get_team_epas w (take 3 ?bt) (key ev) st1 = (Inr blue_epas, st2)"
    by (auto simp: build_feature_vector_def Let_def split: if_splits prod.splits sum.splits)
  from assms len r b have t: "training_row m ev red_epas blue_epas = Inr (Some row)"
    by (simp add: build_feature_vector_def Let_def)
  from get_team_epas_length [OF r] get_team_epas_length [OF b] len
  have "length red_epas = 3" "length blue_epas = 3" by simp_all
  with r b t show ?thesis by blast
qed

lemma build_features_None:
  "(fst (build_features ms w rt bt ek c wk ss) = Inr None) =
   (\<exists>red_epas ss1 blue_epas ss2.
      get_team_epas_cached w rt ek ss = (Inr red_epas, ss1)
      \<and> get_team_epas_cached w bt ek ss1 = (Inr blue_epas, ss2)
      \<and> (valid_of red_epas = [] \<or> valid_of blue_epas = []))"
  by (auto simp: build_features_def inference_vector_None split: prod.splits sum.splits)

lemma training_row_winner:
  assumes "training_row m ev r b = Inr (Some row)"
  shows "map_of row ''winner'' = Some (if score (red m) > score (blue m) then 1 else 0)"
  using assms training_row_accept [OF training_row_Some [OF assms]]
  by (auto simp: summary_row_def)

lemma training_row_distinct:
  assumes "training_row m ev r b = Inr (Some row)"
  shows "distinct (map fst row)"
  by (simp add: training_row_columns [OF assms] FEATURE_COLS_def)

lemma training_row_take:
  assumes "training_row m ev r b = Inr (Some row)"
  shows "take 16 (map fst row) = FEATURE_COLS"
  by (simp add: training_row_columns [OF assms] FEATURE_COLS_def)

text \<open>
  C8. A training row, from the fetched ratings or from a whole call of
  \<open>build_feature_vector\<close>, carries winner 1 with red_score > blue_score and
  winner 0 with blue_score > red_score; a match with equal scores yields no row; and
  with two valid ratings on each side a row with the label is indeed produced.
\<close>

theorem winner_label:
  "(training_row m ev r b = Inr (Some row) \<longrightarrow>
      (score (red m) > score (blue m) \<and> map_of row ''winner'' = Some 1)
      \<or> (score (blue m) > score (red m) \<and> map_of row ''winner'' = Some 0))
   \<and> (score (red m) = score (blue m) \<longrightarrow> training_row m ev r b = Inr None)
   \<and> (fst (build_feature_vector py_int w m ev st) = Inr (Some row) \<longrightarrow>
      (score (red m) > score (blue m) \<and> map_of row ''winner'' = Some 1)
      \<or> (score (blue m) > score (red m) \<and> map_of row ''winner'' = Some 0))
   \<and> (score (red m) = score (blue m) \<longrightarrow>
      (\<forall>row'. fst (build_feature_vector py_int w m ev st) \<noteq> Inr (Some row')))
   \<and> (2 \<le> length (valid_of r) \<and> 2 \<le> length (valid_of b) \<and> score (red m) > score (blue m) \<longrightarrow>
      (\<exists>row'. training_row m ev r b = Inr (Some row') \<and> map_of row' ''winner'' = Some 1))
   \<and> (2 \<le> length (valid_of r) \<and> 2 \<le> length (valid_of b) \<and> score (blue m) > score (red m) \<longrightarrow>
      (\<exists>row'. training_row m ev r b = Inr (Some row') \<and> map_of row' ''winner'' = Some 0))"
proof -
  have label: "(score (red m) > score (blue m) \<and> map_of rw ''winner'' = Some 1)
      \<or> (score (blue m) > score (red m) \<and> map_of rw ''winner'' = Some 0)"
    if "training_row m ev r' b' = Inr (Some rw)" for r' b' rw
    using training_row_winner [OF that] training_row_Some(3) [OF that] by auto
  have a: "training_row m ev r b = Inr (Some row) \<longrightarrow>
      (score (red m) > score (blue m) \<and> map_of row ''winner'' = Some 1)
      \<or> (score (blue m) > score (red m) \<and> map_of row ''winner'' = Some 0)"
    using label by blast
  have b: "score (red m) = score (blue m) \<longrightarrow> training_row m ev r b = Inr None"
    using training_row_tie by blast
  have c: "fst (build_feature_vector py_int w m ev st) = Inr (Some row) \<longrightarrow>
      (score (red m) > score (blue m) \<and> map_of row ''winner'' = Some 1)
      \<or> (score (blue m) > score (red m) \<and> map_of row ''winner'' = Some 0)"
    using build_feature_vector_Some [of py_int w m ev st row] label by blast
  have d: "score (red m) = score (blue m) \<longrightarrow>
      (\<forall>row'. fst (build_feature_vector py_int w m ev st) \<noteq> Inr (Some row'))"
  proof (intro impI allI notI)
    fix row'
    assume tie: "score (red m) = score (blue m)"
      and "fst (build_feature_vector py_int w m ev st) = Inr (Some row')"
    from build_feature_vector_Some [OF this(2)] obtain r' b' where
      "training_row m ev r' b' = Inr (Some row')" by blast
    with training_row_tie [OF tie, of ev r' b'] show False by simp
  qed
  have e: "2 \<le> length (valid_of r) \<and> 2 \<le> length (valid_of b) \<and> score (red m) > score (blue m) \<longrightarrow>
      (\<exists>row'. training_row m ev r b = Inr (Some row') \<and> map_of row' ''winner'' = Some 1)"
    using training_row_accept [of r b m ev] by (auto simp: summary_row_def)
  have f: "2 \<le> length (valid_of r) \<and> 2 \<le> length (valid_of b) \<and> score (blue m) > score (red m) \<longrightarrow>
      (\<exists>row'. training_row m ev r b = Inr (Some row') \<and> map_of row' ''winner'' = Some 0)"
    using training_row_accept [of r b m ev] by (auto simp: summary_row_def)
  from a b c d e f show ?thesis by blast
qed

lemmas batch_eval =
  build_feature_vector_def extract_team_numbers_def sample_match_def tied_match_def lost_match_def
  sample_event_def List.map_filter_simps decimal_def digit_of_def const_world_def clean_world_def
  batch_init_def get_team_epa_def batch_extract_def clean_payload_def err_bind_def dict_get_def
  dict_get_default_def Let_def training_row_def alliance_features_def valid_of_def np_mean_def
  py_sum_def item_def comp_encoded_def event_week_of_def sample_row_def three_clean_def
  clean_rating_def

theorem winner_label_witness:
  "fst (build_feature_vector decimal clean_world sample_match sample_event batch_init)
     = Inr (Some sample_row)
   \<and> score (red sample_match) > score (blue sample_match)
   \<and> map_of sample_row ''winner'' = Some 1
   \<and> score (red tied_match) = score (blue tied_match)
   \<and> (\<forall>row'. fst (build_feature_vector decimal clean_world tied_match sample_event batch_init)
         \<noteq> Inr (Some row'))
   \<and> training_row tied_match sample_event three_clean three_clean = Inr None
   \<and> score (blue lost_match) > score (red lost_match)
   \<and> (\<exists>row'. training_row lost_match sample_event three_clean three_clean = Inr (Some row')
         \<and> map_of row' ''winner'' = Some 0)"
proof -
  have h1: "fst (build_feature_vector decimal clean_world sample_match sample_event batch_init)
     = Inr (Some sample_row)"
    by (simp add: batch_eval)
  have h2: "score (red sample_match) > score (blue sample_match)"
    by (simp add: sample_match_def)
  have h3: "score (red tied_match) = score (blue tied_match)"
    by (simp add: tied_match_def)
  have h4: "2 \<le> length (valid_of three_clean) \<and> 2 \<le> length (valid_of three_clean)
      \<and> score (blue lost_match) > score (red lost_match)"
    by (simp add: three_clean_def lost_match_def)
  from h1 h2 winner_label [of sample_match sample_event _ _ sample_row decimal clean_world batch_init]
  have c1: "map_of sample_row ''winner'' = Some 1" by simp
  from h3 winner_label [of tied_match sample_event three_clean three_clean _ decimal clean_world batch_init]
  have c2: "(\<forall>row'. fst (build_feature_vector decimal clean_world tied_match sample_event batch_init)
         \<noteq> Inr (Some row'))
       \<and> training_row tied_match sample_event three_clean three_clean = Inr None"
    by blast
  from h4 winner_label [of lost_match sample_event three_clean three_clean]
  have c3: "\<exists>row'. training_row lost_match sample_event three_clean three_clean = Inr (Some row')
         \<and> map_of row' ''winner'' = Some 0"
    by blast
  from h1 h2 c1 h3 c2 h4 c3 show ?thesis by blast
qed

text \<open>
  C7. The persisted column list is the canonical list of 16 names. The keys of a
  training row are pairwise distinct and its first 16, in order, are that list. The
  serving vector built from the persisted list holds, in that order, the values of
  the features so named, and it is the same for every dict with the same entries,
  whatever order they were inserted in.
\<close>

theorem canonical_column_order:
  "FEATURE_COLS =
     [''red_avg_epa'', ''red_avg_auto'', ''red_avg_teleop'', ''red_avg_endgame'',
      ''red_sum_epa'', ''red_max_epa'',
      ''blue_avg_epa'', ''blue_avg_auto'', ''blue_avg_teleop'', ''blue_avg_endgame'',
      ''blue_sum_epa'', ''blue_max_epa'',
      ''comp_level'', ''event_week'', ''epa_diff'', ''avg_epa_diff'']
   \<and> (training_row m ev r b = Inr (Some row) \<longrightarrow>
        take 16 (map fst row) = FEATURE_COLS \<and> distinct (map fst row))
   \<and> (fst (build_feature_vector py_int w m ev st) = Inr (Some row) \<longrightarrow>
        take 16 (map fst row) = FEATURE_COLS \<and> distinct (map fst row))
   \<and> (inference_vector FEATURE_COLS cr cb c wk = Inr (Some x) \<longrightarrow>
        (\<exists>fs. features_dict (valid_of cr) (valid_of cb) c wk = Inr fs
           \<and> map fst fs = FEATURE_COLS \<and> x = map snd fs
           \<and> (\<forall>fs'. distinct (map fst fs') \<and> set fs' = set fs \<longrightarrow>
                 select_cols fs' FEATURE_COLS = Inr x)))
   \<and> (feature_cols ms = FEATURE_COLS
        \<and> fst (build_features ms w rt bt ek c wk ss) = Inr (Some x) \<longrightarrow>
        length x = 16 \<and> (\<exists>fs. map fst fs = FEATURE_COLS \<and> x = map snd fs))"
proof -
  have a: "training_row m ev r b = Inr (Some row) \<longrightarrow>
        take 16 (map fst row) = FEATURE_COLS \<and> distinct (map fst row)"
    using training_row_take training_row_distinct by blast
  have b: "fst (build_feature_vector py_int w m ev st) = Inr (Some row) \<longrightarrow>
        take 16 (map fst row) = FEATURE_COLS \<and> distinct (map fst row)"
    using build_feature_vector_Some [of py_int w m ev st row] training_row_take
      training_row_distinct by blast
  have c: "inference_vector FEATURE_COLS cr cb c wk = Inr (Some x) \<longrightarrow>
        (\<exists>fs. features_dict (valid_of cr) (valid_of cb) c wk = Inr fs
           \<and> map fst fs = FEATURE_COLS \<and> x = map snd fs
           \<and> (\<forall>fs'. distinct (map fst fs') \<and> set fs' = set fs \<longrightarrow>
                 select_cols fs' FEATURE_COLS = Inr x))"
  proof
    assume "inference_vector FEATURE_COLS cr cb c wk = Inr (Some x)"
    from inference_vector_canonical [OF this] obtain fs where
      fs: "features_dict (valid_of cr) (valid_of cb) c wk = Inr fs"
      and cols: "map fst fs = FEATURE_COLS" and x: "x = map snd fs" by blast
    have d: "distinct (map fst fs)" by (simp add: cols distinct_FEATURE_COLS)
    have "select_cols fs' FEATURE_COLS = Inr x"
      if "distinct (map fst fs') \<and> set fs' = set fs" for fs'
    proof -
      from that have "select_cols fs' FEATURE_COLS = select_cols fs FEATURE_COLS"
        using select_cols_reordered [OF d, of fs' FEATURE_COLS] by blast
      also have "\<dots> = Inr x" using select_cols_all [OF d] cols x by simp
      finally show ?thesis .
    qed
    with fs cols x show "\<exists>fs. features_dict (valid_of cr) (valid_of cb) c wk = Inr fs
           \<and> map fst fs = FEATURE_COLS \<and> x = map snd fs
           \<and> (\<forall>fs'. distinct (map fst fs') \<and> set fs' = set fs \<longrightarrow>
                 select_cols fs' FEATURE_COLS = Inr x)"
      by blast
  qed
  have d: "feature_cols ms = FEATURE_COLS
        \<and> fst (build_features ms w rt bt ek c wk ss) = Inr (Some x) \<longrightarrow>
        length x = 16 \<and> (\<exists>fs. map fst fs = FEATURE_COLS \<and> x = map snd fs)"
  proof
    assume h: "feature_cols ms = FEATURE_COLS
        \<and> fst (build_features ms w rt bt ek c wk ss) = Inr (Some x)"
    then obtain cr' cb' where "inference_vector FEATURE_COLS cr' cb' c wk = Inr (Some x)"
      by (auto simp: build_features_def split: prod.splits sum.splits)
    from inference_vector_canonical [OF this] obtain fs where
      cols: "map fst fs = FEATURE_COLS" and x: "x = map snd fs" by blast
    have "length x = length (map fst fs)" by (simp add: x)
    then have "length x = 16" by (simp only: cols) (simp add: FEATURE_COLS_def)
    with cols x show "length x = 16 \<and> (\<exists>fs. map fst fs = FEATURE_COLS \<and> x = map snd fs)"
      by blast
  qed
  have e: "FEATURE_COLS =
     [''red_avg_epa'', ''red_avg_auto'', ''red_avg_teleop'', ''red_avg_endgame'',
      ''red_sum_epa'', ''red_max_epa'',
      ''blue_avg_epa'', ''blue_avg_auto'', ''blue_avg_teleop'', ''blue_avg_endgame'',
      ''blue_sum_epa'', ''blue_max_epa'',
      ''comp_level'', ''event_week'', ''epa_diff'', ''avg_epa_diff'']"
    by (simp add: FEATURE_COLS_def)
  from e a b c d show ?thesis by (intro conjI)
qed

lemmas serve_eval =
  build_features_def clean_world_def const_world_def only_254_def serve_init_def
  get_team_epa_cached_def fetch_and_store_def serve_extract_def category_mean_def clean_payload_def
  err_bind_def dict_get_default_def Let_def EPA_CACHE_TTL_def inference_vector_def features_dict_def
  avg_or_zero_def sum_or_zero_def max_or_zero_def sum_entry_def max_entry_def np_mean_def py_sum_def
  item_def FEATURE_COLS_def sample_models_def sample_vector_def sample_features_def three_cached_def
  clean_cached_def

theorem canonical_column_order_witness:
  "fst (build_feature_vector decimal clean_world sample_match sample_event batch_init)
     = Inr (Some sample_row)
   \<and> take 16 (map fst sample_row) = FEATURE_COLS
   \<and> training_row sample_match sample_event three_clean three_clean = Inr (Some sample_row)
   \<and> inference_vector FEATURE_COLS three_cached three_cached 0 2 = Inr (Some sample_vector)
   \<and> features_dict (valid_of three_cached) (valid_of three_cached) 0 2 = Inr sample_features
   \<and> select_cols (rev sample_features) FEATURE_COLS = Inr sample_vector
   \<and> feature_cols sample_models = FEATURE_COLS
   \<and> fst (build_features sample_models clean_world [254, 1678, 971] [118, 148, 2056]
        ''2024casj'' 0 2 serve_init) = Inr (Some sample_vector)
   \<and> length sample_vector = 16"
proof -
  have h1: "fst (build_feature_vector decimal clean_world sample_match sample_event batch_init)
     = Inr (Some sample_row)"
    by (simp add: batch_eval)
  have h2: "training_row sample_match sample_event three_clean three_clean = Inr (Some sample_row)"
    by (simp add: batch_eval)
  have h3: "inference_vector FEATURE_COLS three_cached three_cached 0 2 = Inr (Some sample_vector)"
    by (simp add: serve_eval valid_of_def List.map_filter_simps)
  have h4: "features_dict (valid_of three_cached) (valid_of three_cached) 0 2 = Inr sample_features"
    by (simp add: serve_eval valid_of_def List.map_filter_simps)
  have h5: "feature_cols sample_models = FEATURE_COLS
     \<and> fst (build_features sample_models clean_world [254, 1678, 971] [118, 148, 2056]
        ''2024casj'' 0 2 serve_init) = Inr (Some sample_vector)"
    by (simp add: serve_eval valid_of_def List.map_filter_simps)
  have "distinct (map fst (rev sample_features))"
    by (simp add: sample_features_def)
  then have h6: "distinct (map fst (rev sample_features))
      \<and> set (rev sample_features) = set sample_features"
    by (simp only: set_rev)
  from h1 canonical_column_order [where row = sample_row and py_int = decimal and w = clean_world
      and m = sample_match and ev = sample_event and st = batch_init]
  have c1: "take 16 (map fst sample_row) = FEATURE_COLS" by blast
  from h3 h4 h6 canonical_column_order [where cr = three_cached and cb = three_cached and c = 0 and wk = 2
      and x = sample_vector]
  have c2: "select_cols (rev sample_features) FEATURE_COLS = Inr sample_vector"
    by auto
  from h5 canonical_column_order [where c = 0 and wk = 2 and x = sample_vector and ms = sample_models
      and w = clean_world and rt = "[254, 1678, 971]" and bt = "[118, 148, 2056]"
      and ek = "''2024casj''" and ss = serve_init]
  have c3: "length sample_vector = 16" by blast
  from h1 c1 h2 h3 h4 c2 h5 c3 show ?thesis by blast
qed

text \<open>
  The two gates, as far as they hold. The batch path returns a row only if, of the
  three ratings fetched for each alliance, at least two are valid on both sides; with
  fewer than two valid on either side the row building returns nothing. The serving
  path returns nothing exactly when some alliance has no valid rating; with at least
  one valid rating on each side it returns a vector of 16 entries provided the valid
  ratings hold numbers and the column list is the persisted one.
\<close>

theorem sufficiency_gates:
  "(fst (build_feature_vector py_int w m ev st) = Inr (Some row) \<longrightarrow>
      (\<exists>red_epas st1 blue_epas st2.
         get_team_epas w (take 3 (extract_team_numbers py_int (red m))) (key ev) st
           = (Inr red_epas, st1)
         \<and> get_team_epas w (take 3 (extract_team_numbers py_int (blue m))) (key ev) st1
           = (Inr blue_epas, st2)
         \<and> length red_epas = 3 \<and> length blue_epas = 3
         \<and> 2 \<le> length (valid_of red_epas) \<and> 2 \<le> length (valid_of blue_epas)))
   \<and> (length (valid_of r) < 2 \<or> length (valid_of b) < 2 \<longrightarrow> training_row m ev r b = Inr None)
   \<and> ((inference_vector cols cr cb c wk = Inr None) = (valid_of cr = [] \<or> valid_of cb = []))
   \<and> (valid_of cr \<noteq> [] \<and> valid_of cb \<noteq> []
        \<and> list_all numeric_rating (valid_of cr) \<and> list_all numeric_rating (valid_of cb) \<longrightarrow>
      (\<exists>x. inference_vector FEATURE_COLS cr cb c wk = Inr (Some x) \<and> length x = 16))
   \<and> ((fst (build_features ms w rt bt ek c wk ss) = Inr None) =
      (\<exists>red_epas ss1 blue_epas ss2.
         get_team_epas_cached w rt ek ss = (Inr red_epas, ss1)
         \<and> get_team_epas_cached w bt ek ss1 = (Inr blue_epas, ss2)
         \<and> (valid_of red_epas = [] \<or> valid_of blue_epas = [])))"
proof -
  have a: "fst (build_feature_vector py_int w m ev st) = Inr (Some row) \<longrightarrow>
      (\<exists>red_epas st1 blue_epas st2.
         get_team_epas w (take 3 (extract_team_numbers py_int (red m))) (key ev) st
           = (Inr red_epas, st1)
         \<and> get_team_epas w (take 3 (extract_team_numbers py_int (blue m))) (key ev) st1
           = (Inr blue_epas, st2)
         \<and> length red_epas = 3 \<and> length blue_epas = 3
         \<and> 2 \<le> length (valid_of red_epas) \<and> 2 \<le> length (valid_of blue_epas))"
  proof
    assume "fst (build_feature_vector py_int w m ev st) = Inr (Some row)"
    from build_feature_vector_Some [OF this] obtain red_epas st1 blue_epas st2 where
      f: "get_team_epas w (take 3 (extract_team_numbers py_int (red m))) (key ev) st
           = (Inr red_epas, st1)"
         "get_team_epas w (take 3 (extract_team_numbers py_int (blue m))) (key ev) st1
           = (Inr blue_epas, st2)"
         "length red_epas = 3" "length blue_epas = 3"
      and t: "training_row m ev red_epas blue_epas = Inr (Some row)"
      by blast
    from training_row_Some(1,2) [OF t] f
    show "\<exists>red_epas st1 blue_epas st2.
         get_team_epas w (take 3 (extract_team_numbers py_int (red m))) (key ev) st
           = (Inr red_epas, st1)
         \<and> get_team_epas w (take 3 (extract_team_numbers py_int (blue m))) (key ev) st1
           = (Inr blue_epas, st2)
         \<and> length red_epas = 3 \<and> length blue_epas = 3
         \<and> 2 \<le> length (valid_of red_epas) \<and> 2 \<le> length (valid_of blue_epas)"
      by blast
  qed
  have b: "length (valid_of r) < 2 \<or> length (valid_of b) < 2 \<longrightarrow> training_row m ev r b = Inr None"
    using training_row_gate by blast
  have c: "(inference_vector cols cr cb c wk = Inr None) = (valid_of cr = [] \<or> valid_of cb = [])"
    by (rule inference_vector_None)
  have d: "valid_of cr \<noteq> [] \<and> valid_of cb \<noteq> []
        \<and> list_all numeric_rating (valid_of cr) \<and> list_all numeric_rating (valid_of cb) \<longrightarrow>
      (\<exists>x. inference_vector FEATURE_COLS cr cb c wk = Inr (Some x) \<and> length x = 16)"
    using numeric_inference_vector [of cr cb c wk] by blast
  have e: "(fst (build_features ms w rt bt ek c wk ss) = Inr None) =
      (\<exists>red_epas ss1 blue_epas ss2.
         get_team_epas_cached w rt ek ss = (Inr red_epas, ss1)
         \<and> get_team_epas_cached w bt ek ss1 = (Inr blue_epas, ss2)
         \<and> (valid_of red_epas = [] \<or> valid_of blue_epas = []))"
    by (rule build_features_None)
  from a b c d e show ?thesis by (intro conjI)
qed

theorem sufficiency_gates_witness:
  "fst (build_feature_vector decimal clean_world sample_match sample_event batch_init)
     = Inr (Some sample_row)
   \<and> (\<exists>red_epas st1 blue_epas st2.
         get_team_epas clean_world (take 3 (extract_team_numbers decimal (red sample_match)))
           (key sample_event) batch_init = (Inr red_epas, st1)
         \<and> get_team_epas clean_world (take 3 (extract_team_numbers decimal (blue sample_match)))
           (key sample_event) st1 = (Inr blue_epas, st2)
         \<and> length red_epas = 3 \<and> length blue_epas = 3
         \<and> 2 \<le> length (valid_of red_epas) \<and> 2 \<le> length (valid_of blue_epas))
   \<and> length (valid_of one_of_three) < 2
   \<and> training_row sample_match sample_event one_of_three three_clean = Inr None
   \<and> valid_of one_cached \<noteq> [] \<and> valid_of three_cached \<noteq> []
   \<and> list_all numeric_rating (valid_of one_cached)
   \<and> list_all numeric_rating (valid_of three_cached)
   \<and> inference_vector FEATURE_COLS one_cached three_cached 0 2 \<noteq> Inr None
   \<and> (\<exists>x. inference_vector FEATURE_COLS one_cached three_cached 0 2 = Inr (Some x)
         \<and> length x = 16)
   \<and> fst (build_features sample_models only_254 [254, 1678, 971] [118, 254, 2056]
        ''2024casj'' 0 2 serve_init) \<noteq> Inr None
   \<and> fst (build_features sample_models only_254 [254, 1678, 971] [118, 148, 2056]
        ''2024casj'' 0 2 serve_init) = Inr None"
proof -
  have h1: "fst (build_feature_vector decimal clean_world sample_match sample_event batch_init)
     = Inr (Some sample_row)"
    by (simp add: batch_eval)
  have h2: "length (valid_of one_of_three) < 2"
    by (simp add: one_of_three_def)
  have h3: "valid_of one_cached \<noteq> [] \<and> valid_of three_cached \<noteq> []
      \<and> list_all numeric_rating (valid_of one_cached)
      \<and> list_all numeric_rating (valid_of three_cached)"
    by (simp add: one_cached_def three_cached_def numeric_rating_def clean_cached_def)
  have h4: "fst (build_features sample_models only_254 [254, 1678, 971] [118, 254, 2056]
        ''2024casj'' 0 2 serve_init) \<noteq> Inr None"
    by (simp add: serve_eval valid_of_def List.map_filter_simps)
  have h5: "fst (build_features sample_models only_254 [254, 1678, 971] [118, 148, 2056]
        ''2024casj'' 0 2 serve_init) = Inr None"
    by (simp add: serve_eval valid_of_def List.map_filter_simps)
  note g = sufficiency_gates [where py_int = decimal and w = clean_world and m = sample_match
      and ev = sample_event and st = batch_init and row = sample_row and r = one_of_three
      and b = three_clean and cr = one_cached and cb = three_cached and c = 0 and wk = 2
      and cols = FEATURE_COLS]
  from h1 g have c1: "\<exists>red_epas st1 blue_epas st2.
         get_team_epas clean_world (take 3 (extract_team_numbers decimal (red sample_match)))
           (key sample_event) batch_init = (Inr red_epas, st1)
         \<and> get_team_epas clean_world (take 3 (extract_team_numbers decimal (blue sample_match)))
           (key sample_event) st1 = (Inr blue_epas, st2)
         \<and> length red_epas = 3 \<and> length blue_epas = 3
         \<and> 2 \<le> length (valid_of red_epas) \<and> 2 \<le> length (valid_of blue_epas)"
    by blast
  from h2 g have c2: "training_row sample_match sample_event one_of_three three_clean = Inr None"
    by blast
  from h3 g have c3: "inference_vector FEATURE_COLS one_cached three_cached 0 2 \<noteq> Inr None"
    by blast
  from h3 g have c4: "\<exists>x. inference_vector FEATURE_COLS one_cached three_cached 0 2 = Inr (Some x)
         \<and> length x = 16"
    by blast
  from h1 c1 h2 c2 h3 c3 c4 h4 h5 show ?thesis by blast
qed

lemmas null_eval =
  null_254_def null_mean_payload_def null_cached_def serve_init_def batch_init_def
  get_team_epa_cached_def fetch_and_store_def serve_extract_def category_mean_def err_bind_def
  dict_get_def dict_get_default_def Let_def EPA_CACHE_TTL_def build_features_def
  inference_vector_def features_dict_def avg_or_zero_def sample_models_def
  get_team_epa_def batch_extract_def

text \<open>
  C2. The serving path should return a vector whenever each alliance has at least one
  valid rating. It does not. A status-200 payload whose total mean is null yields a
  rating that is present, not absent; with one such rating on each side
  \<open>build_features\<close> neither returns a vector nor returns nothing: \<open>np.mean\<close>
  raises TypeError. The batch path coerces the same field to 0.0 and returns the
  rating.
\<close>

theorem serving_gate_raises:
  "fst (get_team_epas_cached null_254 [254, 1678, 971] ''2024casj'' serve_init)
     = Inr [Some null_cached, None, None]
   \<and> valid_of [Some null_cached, None, None] = [null_cached]
   \<and> inference_vector FEATURE_COLS [Some null_cached, None, None] [None, Some null_cached, None] 0 2
     = Inl TypeError
   \<and> fst (build_features sample_models null_254 [254, 1678, 971] [118, 254, 2056]
        ''2024casj'' 0 2 serve_init) = Inl TypeError
   \<and> fst (get_team_epa null_254 254 ''2024casj'' batch_init)
     = Inr (Some \<lparr> total = 0, auto = 10, teleop = 25, endgame = 5 \<rparr>)"
  by (simp add: null_eval valid_of_def List.map_filter_simps)

section \<open>The prediction endpoint\<close>

lemma py_round_cases: "py_round x = \<lfloor>x\<rfloor> \<or> py_round x = \<lfloor>x\<rfloor> + 1"
  by (simp add: py_round_def Let_def)

lemma py_round_ge_floor: "\<lfloor>x\<rfloor> \<le> py_round x"
  using py_round_cases [of x] by auto

lemma py_round_ge_int: "of_int n \<le> x \<Longrightarrow> n \<le> py_round x"
  using py_round_ge_floor [of x] by (meson le_floor_iff order_trans)

lemma py_round_near: "\<bar>of_int (py_round x) - x\<bar> \<le> 1 / 2"
proof -
  have f: "of_int \<lfloor>x\<rfloor> \<le> x" "x < of_int \<lfloor>x\<rfloor> + 1" by linarith+
  show ?thesis
    using f by (auto simp: py_round_def Let_def abs_le_iff)
qed

lemma py_round_digits_ge_half: "1 / 2 \<le> x \<Longrightarrow> 1 / 2 \<le> py_round_digits x 3"
proof -
  assume "1 / 2 \<le> x"
  then have "of_int 500 \<le> x * 10 ^ 3" by simp
  then have "500 \<le> py_round (x * 10 ^ 3)" by (rule py_round_ge_int)
  then have "(500 :: real) \<le> of_int (py_round (x * 10 ^ 3))" by linarith
  then show ?thesis by (simp add: py_round_digits_def)
qed

lemma py_round_digits_near: "\<bar>py_round_digits x 3 - x\<bar> \<le> 1 / 2000"
proof -
  define y where "y = py_round_digits x 3"
  have e: "of_int (py_round (x * 1000)) = y * 1000"
    by (simp add: y_def py_round_digits_def)
  have "\<bar>of_int (py_round (x * 1000)) - x * 1000\<bar> \<le> 1 / 2" by (rule py_round_near)
  then have "\<bar>y * 1000 - x * 1000\<bar> \<le> 1 / 2" by (simp only: e)
  then have "\<bar>y - x\<bar> \<le> 1 / 2000" by linarith
  then show ?thesis by (simp only: y_def)
qed

lemma py_round_digits_thousandth: "\<exists>k :: int. py_round_digits x 3 = of_int k / 1000"
  by (auto simp: py_round_digits_def)

lemma predict_unloaded: "\<not> MODELS_LOADED ms \<Longrightarrow> predict ms w req st = (HTTPException 503, st)"
  by (simp add: predict_def)

lemma predict_bad_count:
  "MODELS_LOADED ms \<Longrightarrow> length (red_teams req) \<noteq> 3 \<or> length (blue_teams req) \<noteq> 3 \<Longrightarrow>
   predict ms w req st = (HTTPException 400, st)"
  by (auto simp: predict_def)

lemma predict_proceeds:
  assumes "MODELS_LOADED ms" "length (red_teams req) = 3" "length (blue_teams req) = 3"
  shows "fst (predict ms w req st) =
    (case fst (build_features ms w (red_teams req) (blue_teams req) (event_key req)
                (req_comp_level req) (req_event_week req) st) of
       Inl e \<Rightarrow> Unhandled e
     | Inr None \<Rightarrow> HTTPException 422
     | Inr (Some X) \<Rightarrow> Returned (response_of ms X))"
  using assms
  by (auto simp: predict_def response_of_def Let_def split: prod.splits sum.splits option.splits)

lemma response_of_fields:
  "0 \<le> red_score (response_of ms X)"
  "0 \<le> blue_score (response_of ms X)"
  "0 \<le> margin (response_of ms X)"
  "margin (response_of ms X) = \<bar>red_score (response_of ms X) - blue_score (response_of ms X)\<bar>"
  "winner (response_of ms X) = ''red'' \<or> winner (response_of ms X) = ''blue''"
  "\<exists>k :: int. win_probability (response_of ms X) = of_int k / 1000"
proof -
  show "0 \<le> red_score (response_of ms X)" by (simp add: response_of_def)
  show "0 \<le> blue_score (response_of ms X)" by (simp add: response_of_def)
  show "0 \<le> margin (response_of ms X)" by (simp add: response_of_def)
  show "margin (response_of ms X) = \<bar>red_score (response_of ms X) - blue_score (response_of ms X)\<bar>"
    by (simp add: response_of_def)
  show "winner (response_of ms X) = ''red'' \<or> winner (response_of ms X) = ''blue''"
    by (simp add: response_of_def)
  obtain p where "win_probability (response_of ms X) = py_round_digits p 3"
    by (simp add: response_of_def)
  then show "\<exists>k :: int. win_probability (response_of ms X) = of_int k / 1000"
    using py_round_digits_thousandth [of p] by (simp only:)
qed

lemma response_of_probability:
  "(winner (response_of ms X) = ''red'') = (1 / 2 < clf ms (scaler ms X))"
  "(winner (response_of ms X) = ''blue'') = (clf ms (scaler ms X) \<le> 1 / 2)"
  "win_probability (response_of ms X) =
     py_round_digits (if winner (response_of ms X) = ''red'' then clf ms (scaler ms X)
                      else 1 - clf ms (scaler ms X)) 3"
  "1 / 2 \<le> win_probability (response_of ms X)"
proof -
  show "(winner (response_of ms X) = ''red'') = (1 / 2 < clf ms (scaler ms X))"
    by (simp add: response_of_def)
  show "(winner (response_of ms X) = ''blue'') = (clf ms (scaler ms X) \<le> 1 / 2)"
    by (auto simp: response_of_def)
  show "win_probability (response_of ms X) =
     py_round_digits (if winner (response_of ms X) = ''red'' then clf ms (scaler ms X)
                      else 1 - clf ms (scaler ms X)) 3"
    by (simp add: response_of_def)
  have "1 / 2 \<le> (if clf ms (scaler ms X) > 0.5 then clf ms (scaler ms X)
      else 1 - clf ms (scaler ms X))"
    by simp
  from py_round_digits_ge_half [OF this]
  show "1 / 2 \<le> win_probability (response_of ms X)"
    by (simp add: response_of_def)
qed

lemma predict_Returned:
  assumes "fst (predict ms w req st) = Returned resp"
  shows "MODELS_LOADED ms \<and> length (red_teams req) = 3 \<and> length (blue_teams req) = 3
    \<and> (\<exists>X. fst (build_features ms w (red_teams req) (blue_teams req) (event_key req)
                (req_comp_level req) (req_event_week req) st) = Inr (Some X)
             \<and> resp = response_of ms X)"
proof -
  have l: "MODELS_LOADED ms"
    using assms predict_unloaded [of ms w req st] by (cases "MODELS_LOADED ms") auto
  have c: "length (red_teams req) = 3 \<and> length (blue_teams req) = 3"
    using assms l predict_bad_count [of ms req w st]
    by (cases "length (red_teams req) \<noteq> 3 \<or> length (blue_teams req) \<noteq> 3") auto
  from assms predict_proceeds [of ms req w st] l c
  have "\<exists>X. fst (build_features ms w (red_teams req) (blue_teams req) (event_key req)
                (req_comp_level req) (req_event_week req) st) = Inr (Some X)
             \<and> resp = response_of ms X"
    by (auto split: sum.splits option.splits)
  with l c show ?thesis by blast
qed

text \<open>
  C9, as stated: the bad-request status exactly when a team list does not hold three
  entries. With the models not loaded, a request with two red teams is answered 503:
  the check for the models comes first.
\<close>

theorem bad_request_counterexample:
  "length (red_teams short_request) \<noteq> 3
   \<and> fst (predict unloaded_models clean_world short_request serve_init) = HTTPException 503"
  by (simp add: short_request_def unloaded_models_def sample_models_def predict_def)

text \<open>
  C9, amended. The endpoint answers 503 exactly when the models are not loaded; 400
  exactly when they are loaded and a team list does not hold three entries; 422 exactly
  when they are loaded, both lists hold three entries and feature building returns
  nothing; it returns a response exactly when, past these checks, feature building
  returns a vector. In a response red_score, blue_score and margin are non-negative
  integers, margin is the distance of the two scores, the winner is red or blue, and
  win_probability is a whole number of thousandths. (An exception escaping from
  feature building is none of these outcomes.)
\<close>

theorem predict_outcomes:
  "((fst (predict ms w req st) = HTTPException 503) = (\<not> MODELS_LOADED ms))
   \<and> ((fst (predict ms w req st) = HTTPException 400) =
        (MODELS_LOADED ms \<and> (length (red_teams req) \<noteq> 3 \<or> length (blue_teams req) \<noteq> 3)))
   \<and> ((fst (predict ms w req st) = HTTPException 422) =
        (MODELS_LOADED ms \<and> length (red_teams req) = 3 \<and> length (blue_teams req) = 3
         \<and> fst (build_features ms w (red_teams req) (blue_teams req) (event_key req)
                (req_comp_level req) (req_event_week req) st) = Inr None))
   \<and> ((\<exists>r. fst (predict ms w req st) = Returned r) =
        (MODELS_LOADED ms \<and> length (red_teams req) = 3 \<and> length (blue_teams req) = 3
         \<and> (\<exists>X. fst (build_features ms w (red_teams req) (blue_teams req) (event_key req)
                (req_comp_level req) (req_event_week req) st) = Inr (Some X))))
   \<and> (fst (predict ms w req st) = Returned resp \<longrightarrow>
        0 \<le> red_score resp \<and> 0 \<le> blue_score resp \<and> 0 \<le> margin resp
        \<and> margin resp = \<bar>red_score resp - blue_score resp\<bar>
        \<and> (winner resp = ''red'' \<or> winner resp = ''blue'')
        \<and> (\<exists>k :: int. win_probability resp = of_int k / 1000))"
proof -
  let ?bf = "fst (build_features ms w (red_teams req) (blue_teams req) (event_key req)
                (req_comp_level req) (req_event_week req) st)"
  consider (unloaded) "\<not> MODELS_LOADED ms"
    | (count) "MODELS_LOADED ms" "length (red_teams req) \<noteq> 3 \<or> length (blue_teams req) \<noteq> 3"
    | (go) "MODELS_LOADED ms" "length (red_teams req) = 3" "length (blue_teams req) = 3"
    by blast
  then have status:
    "((fst (predict ms w req st) = HTTPException 503) = (\<not> MODELS_LOADED ms))
     \<and> ((fst (predict ms w req st) = HTTPException 400) =
        (MODELS_LOADED ms \<and> (length (red_teams req) \<noteq> 3 \<or> length (blue_teams req) \<noteq> 3)))
     \<and> ((fst (predict ms w req st) = HTTPException 422) =
        (MODELS_LOADED ms \<and> length (red_teams req) = 3 \<and> length (blue_teams req) = 3
         \<and> ?bf = Inr None))
     \<and> ((\<exists>r. fst (predict ms w req st) = Returned r) =
        (MODELS_LOADED ms \<and> length (red_teams req) = 3 \<and> length (blue_teams req) = 3
         \<and> (\<exists>X. ?bf = Inr (Some X))))"
  proof cases
    case unloaded
    then show ?thesis by (simp add: predict_unloaded)
  next
    case count
    then show ?thesis by (auto simp: predict_bad_count)
  next
    case go
    then show ?thesis
      by (auto simp: predict_proceeds split: sum.splits option.splits)
  qed
  have fields: "fst (predict ms w req st) = Returned resp \<longrightarrow>
        0 \<le> red_score resp \<and> 0 \<le> blue_score resp \<and> 0 \<le> margin resp
        \<and> margin resp = \<bar>red_score resp - blue_score resp\<bar>
        \<and> (winner resp = ''red'' \<or> winner resp = ''blue'')
        \<and> (\<exists>k :: int. win_probability resp = of_int k / 1000)"
  proof
    assume "fst (predict ms w req st) = Returned resp"
    from predict_Returned [OF this] obtain X where "resp = response_of ms X" by blast
    then show "0 \<le> red_score resp \<and> 0 \<le> blue_score resp \<and> 0 \<le> margin resp
        \<and> margin resp = \<bar>red_score resp - blue_score resp\<bar>
        \<and> (winner resp = ''red'' \<or> winner resp = ''blue'')
        \<and> (\<exists>k :: int. win_probability resp = of_int k / 1000)"
      using response_of_fields [of ms X] by simp
  qed
  from status fields show ?thesis by (intro conjI) blast+
qed

text \<open>
  C10, amended. In a response, win_probability is the probability of the reported
  winner rounded to three decimals: for winner red the classifier's red-win
  probability \<open>p\<close>, which then exceeds 1/2, rounded; for winner blue \<open>1 - p\<close>,
  with \<open>p\<close> at most 1/2, rounded. It differs from the unrounded value by at most
  0.0005 and is always at least 1/2.
\<close>

theorem win_probability_of_winner:
  "fst (predict ms w req st) = Returned resp \<longrightarrow>
     (\<exists>X. fst (build_features ms w (red_teams req) (blue_teams req) (event_key req)
                (req_comp_level req) (req_event_week req) st) = Inr (Some X)
        \<and> (winner resp = ''red'' \<longrightarrow>
             1 / 2 < clf ms (scaler ms X)
             \<and> win_probability resp = py_round_digits (clf ms (scaler ms X)) 3
             \<and> \<bar>win_probability resp - clf ms (scaler ms X)\<bar> \<le> 1 / 2000)
        \<and> (winner resp = ''blue'' \<longrightarrow>
             clf ms (scaler ms X) \<le> 1 / 2
             \<and> win_probability resp = py_round_digits (1 - clf ms (scaler ms X)) 3
             \<and> \<bar>win_probability resp - (1 - clf ms (scaler ms X))\<bar> \<le> 1 / 2000))
     \<and> (winner resp = ''red'' \<or> winner resp = ''blue'')
     \<and> 1 / 2 \<le> win_probability resp"
proof
  assume "fst (predict ms w req st) = Returned resp"
  from predict_Returned [OF this] obtain X where
    bf: "fst (build_features ms w (red_teams req) (blue_teams req) (event_key req)
                (req_comp_level req) (req_event_week req) st) = Inr (Some X)"
    and r: "resp = response_of ms X" by blast
  have red: "winner resp = ''red'' \<longrightarrow>
             1 / 2 < clf ms (scaler ms X)
             \<and> win_probability resp = py_round_digits (clf ms (scaler ms X)) 3
             \<and> \<bar>win_probability resp - clf ms (scaler ms X)\<bar> \<le> 1 / 2000"
    using response_of_probability(1,3) [of ms X] py_round_digits_near [of "clf ms (scaler ms X)"]
    by (simp add: r)
  have blue: "winner resp = ''blue'' \<longrightarrow>
             clf ms (scaler ms X) \<le> 1 / 2
             \<and> win_probability resp = py_round_digits (1 - clf ms (scaler ms X)) 3
             \<and> \<bar>win_probability resp - (1 - clf ms (scaler ms X))\<bar> \<le> 1 / 2000"
    using response_of_probability(2,3) [of ms X]
      py_round_digits_near [of "1 - clf ms (scaler ms X)"]
    by (auto simp add: r)
  have w: "winner resp = ''red'' \<or> winner resp = ''blue''"
    using response_of_fields(5) [of ms X] by (simp add: r)
  have p: "1 / 2 \<le> win_probability resp"
    using response_of_probability(4) [of ms X] by (simp add: r)
  from bf red blue w p
  show "(\<exists>X. fst (build_features ms w (red_teams req) (blue_teams req) (event_key req)
                (req_comp_level req) (req_event_week req) st) = Inr (Some X)
        \<and> (winner resp = ''red'' \<longrightarrow>
             1 / 2 < clf ms (scaler ms X)
             \<and> win_probability resp = py_round_digits (clf ms (scaler ms X)) 3
             \<and> \<bar>win_probability resp - clf ms (scaler ms X)\<bar> \<le> 1 / 2000)
        \<and> (winner resp = ''blue'' \<longrightarrow>
             clf ms (scaler ms X) \<le> 1 / 2
             \<and> win_probability resp = py_round_digits (1 - clf ms (scaler ms X)) 3
             \<and> \<bar>win_probability resp - (1 - clf ms (scaler ms X))\<bar> \<le> 1 / 2000))
     \<and> (winner resp = ''red'' \<or> winner resp = ''blue'')
     \<and> 1 / 2 \<le> win_probability resp"
    by blast
qed

lemma build_features_sample:
  "fst (build_features sample_models clean_world [254, 1678, 971] [118, 148, 2056]
        ''2024casj'' 0 2 serve_init) = Inr (Some sample_vector)"
  by (simp add: serve_eval valid_of_def List.map_filter_simps)

lemma build_features_underdog:
  "fst (build_features underdog_models clean_world [254, 1678, 971] [118, 148, 2056]
        ''2024casj'' 0 2 serve_init) = Inr (Some sample_vector)"
  by (simp add: serve_eval underdog_models_def valid_of_def List.map_filter_simps)

lemma predict_sample:
  "fst (predict sample_models clean_world sample_request serve_init) = Returned sample_response"
proof -
  have "MODELS_LOADED sample_models" "length (red_teams sample_request) = 3"
    "length (blue_teams sample_request) = 3"
    by (simp_all add: sample_models_def sample_request_def)
  from predict_proceeds [OF this, of clean_world serve_init] build_features_sample
  have "fst (predict sample_models clean_world sample_request serve_init)
      = Returned (response_of sample_models sample_vector)"
    by (simp add: sample_request_def)
  moreover have "response_of sample_models sample_vector = sample_response"
    by (simp add: response_of_def sample_models_def sample_response_def py_round_def
        py_round_digits_def Let_def)
  ultimately show ?thesis by simp
qed

lemma predict_underdog:
  "fst (predict underdog_models clean_world sample_request serve_init) = Returned underdog_response"
proof -
  have "MODELS_LOADED underdog_models" "length (red_teams sample_request) = 3"
    "length (blue_teams sample_request) = 3"
    by (simp_all add: underdog_models_def sample_models_def sample_request_def)
  from predict_proceeds [OF this, of clean_world serve_init] build_features_underdog
  have "fst (predict underdog_models clean_world sample_request serve_init)
      = Returned (response_of underdog_models sample_vector)"
    by (simp add: sample_request_def)
  moreover have "response_of underdog_models sample_vector = underdog_response"
    by (simp add: response_of_def underdog_models_def sample_models_def underdog_response_def
        py_round_def py_round_digits_def Let_def)
  ultimately show ?thesis by simp
qed

theorem predict_outcomes_witness:
  "fst (predict sample_models clean_world sample_request serve_init) = Returned sample_response
   \<and> 0 \<le> red_score sample_response \<and> 0 \<le> blue_score sample_response
   \<and> 0 \<le> margin sample_response
   \<and> (\<exists>k :: int. win_probability sample_response = of_int k / 1000)
   \<and> \<not> MODELS_LOADED unloaded_models
   \<and> fst (predict unloaded_models clean_world sample_request serve_init) = HTTPException 503
   \<and> MODELS_LOADED sample_models
   \<and> length (red_teams short_request) \<noteq> 3
   \<and> fst (predict sample_models clean_world short_request serve_init) = HTTPException 400
   \<and> length (red_teams sample_request) = 3 \<and> length (blue_teams sample_request) = 3
   \<and> fst (build_features sample_models only_254 (red_teams sample_request)
        (blue_teams sample_request) (event_key sample_request) (req_comp_level sample_request)
        (req_event_week sample_request) serve_init) = Inr None
   \<and> fst (predict sample_models only_254 sample_request serve_init) = HTTPException 422"
proof -
  have h1: "\<not> MODELS_LOADED unloaded_models"
    by (simp add: unloaded_models_def)
  have h2: "MODELS_LOADED sample_models \<and> length (red_teams short_request) \<noteq> 3"
    by (simp add: sample_models_def short_request_def)
  have h3: "length (red_teams sample_request) = 3 \<and> length (blue_teams sample_request) = 3
     \<and> fst (build_features sample_models only_254 (red_teams sample_request)
        (blue_teams sample_request) (event_key sample_request) (req_comp_level sample_request)
        (req_event_week sample_request) serve_init) = Inr None"
    by (simp add: sample_request_def serve_eval valid_of_def List.map_filter_simps)
  from predict_sample
    predict_outcomes [where ms = sample_models and w = clean_world and req = sample_request
      and st = serve_init and resp = sample_response]
  have c0: "0 \<le> red_score sample_response \<and> 0 \<le> blue_score sample_response
     \<and> 0 \<le> margin sample_response
     \<and> (\<exists>k :: int. win_probability sample_response = of_int k / 1000)"
    by blast
  from h1 predict_outcomes [where ms = unloaded_models and w = clean_world
      and req = sample_request and st = serve_init]
  have c1: "fst (predict unloaded_models clean_world sample_request serve_init) = HTTPException 503"
    by blast
  from h2 predict_outcomes [where ms = sample_models and w = clean_world
      and req = short_request and st = serve_init]
  have c2: "fst (predict sample_models clean_world short_request serve_init) = HTTPException 400"
    by blast
  from h2 h3 predict_outcomes [where ms = sample_models and w = only_254
      and req = sample_request and st = serve_init]
  have c3: "fst (predict sample_models only_254 sample_request serve_init) = HTTPException 422"
    by blast
  from predict_sample c0 h1 c1 h2 c2 h3 c3 show ?thesis by blast
qed

text \<open>
  C10, as stated: win_probability equals the classifier's probability for the winner.
  With a red-win probability of 0.7004 the response reports red with 0.7.
\<close>

theorem win_probability_counterexample:
  "fst (predict sample_models clean_world sample_request serve_init) = Returned sample_response
   \<and> fst (build_features sample_models clean_world (red_teams sample_request)
        (blue_teams sample_request) (event_key sample_request) (req_comp_level sample_request)
        (req_event_week sample_request) serve_init) = Inr (Some sample_vector)
   \<and> winner sample_response = ''red''
   \<and> clf sample_models (scaler sample_models sample_vector) = 7004 / 10000
   \<and> win_probability sample_response = 7 / 10
   \<and> win_probability sample_response \<noteq> clf sample_models (scaler sample_models sample_vector)"
  using predict_sample build_features_sample
  by (simp add: sample_request_def sample_response_def sample_models_def)

theorem win_probability_of_winner_witness:
  "fst (predict sample_models clean_world sample_request serve_init) = Returned sample_response
   \<and> winner sample_response = ''red''
   \<and> 1 / 2 \<le> win_probability sample_response
   \<and> fst (predict underdog_models clean_world sample_request serve_init)
       = Returned underdog_response
   \<and> winner underdog_response = ''blue''
   \<and> 1 / 2 \<le> win_probability underdog_response
   \<and> (\<exists>X. fst (build_features underdog_models clean_world (red_teams sample_request)
          (blue_teams sample_request) (event_key sample_request) (req_comp_level sample_request)
          (req_event_week sample_request) serve_init) = Inr (Some X)
        \<and> clf underdog_models (scaler underdog_models X) \<le> 1 / 2
        \<and> win_probability underdog_response
            = py_round_digits (1 - clf underdog_models (scaler underdog_models X)) 3)"
proof -
  have r: "winner sample_response = ''red''" by (simp add: sample_response_def)
  have b: "winner underdog_response = ''blue''" by (simp add: underdog_response_def)
  from predict_sample
    win_probability_of_winner [where ms = sample_models and w = clean_world
      and req = sample_request and st = serve_init and resp = sample_response]
  have c1: "1 / 2 \<le> win_probability sample_response" by blast
  note u = win_probability_of_winner [where ms = underdog_models and w = clean_world
      and req = sample_request and st = serve_init and resp = underdog_response]
  from predict_underdog u have c2: "1 / 2 \<le> win_probability underdog_response" by blast
  from predict_underdog b u
  have c3: "\<exists>X. fst (build_features underdog_models clean_world (red_teams sample_request)
          (blue_teams sample_request) (event_key sample_request) (req_comp_level sample_request)
          (req_event_week sample_request) serve_init) = Inr (Some X)
        \<and> clf underdog_models (scaler underdog_models X) \<le> 1 / 2
        \<and> win_probability underdog_response
            = py_round_digits (1 - clf underdog_models (scaler underdog_models X)) 3"
    by blast
  from predict_sample r c1 predict_underdog b c2 c3 show ?thesis by blast
qed

end
